theory Spec2Isabelle
  imports Complex_Main "HOL-Library.Sublist" "HOL-Library.Multiset"
begin

section \<open>JavaScript strings\<close>

text \<open>
  A JavaScript string is modelled as a \<open>string\<close> (a list of characters, each standing for
  one code unit). \<open>s.substring(0, n)\<close> is \<open>take n s\<close>, \<open>s.length\<close> is \<open>length s\<close>.
  \<open>String.prototype.toLowerCase\<close> folds every cased letter of Unicode; it is supplied by the
  platform, and the functions that call it take it as the parameter \<open>toLowerCase\<close>.
\<close>

text \<open>\<open>s.includes(sub)\<close>: \<open>sub\<close> occurs in \<open>s\<close> as a contiguous run.\<close>

fun str_includes :: "string \<Rightarrow> string \<Rightarrow> bool" where
  "str_includes [] sub = (sub = [])"
| "str_includes (c # cs) sub = (prefix sub (c # cs) \<or> str_includes cs sub)"

text \<open>\<open>xs.join(sep)\<close>\<close>

fun join :: "string \<Rightarrow> string list \<Rightarrow> string" where
  "join sep [] = []"
| "join sep [x] = x"
| "join sep (x # y # ys) = x @ sep @ join sep (y # ys)"

text \<open>A parameter or option with a default value, \<open>x = d\<close>: the default stands in for \<open>undefined\<close>.\<close>

definition with_default :: "'a \<Rightarrow> 'a option \<Rightarrow> 'a" where
  "with_default d v = (case v of None \<Rightarrow> d | Some x \<Rightarrow> x)"

section \<open>JavaScript numbers\<close>

text \<open>
  A JavaScript number is an IEEE double: a finite value (a real number that the format
  represents), one of the two infinities, or \<open>NaN\<close>. The zero with a negative sign is not
  told apart from zero; the one expression computed below never divides by it.
\<close>

datatype js_number = Finite real | PosInfinity | NegInfinity | NaN

text \<open>
  The result of an arithmetic operation is the exact result rounded to a double, and an
  infinity when the exact result is too large. The rounding is supplied by the platform;
  the functions that compute take it as the parameter \<open>to_double\<close>.
\<close>

type_synonym rounding = "real \<Rightarrow> js_number"

text \<open>\<open>a <= b\<close> on numbers: false as soon as one side is \<open>NaN\<close>.\<close>

fun js_le :: "js_number \<Rightarrow> js_number \<Rightarrow> bool" where
  "js_le NaN b = False"
| "js_le a NaN = False"
| "js_le NegInfinity b = True"
| "js_le a PosInfinity = True"
| "js_le (Finite x) (Finite y) = (x \<le> y)"
| "js_le PosInfinity b = False"
| "js_le (Finite x) NegInfinity = False"

text \<open>\<open>1 + d\<close>\<close>

fun one_plus :: "rounding \<Rightarrow> js_number \<Rightarrow> js_number" where
  "one_plus to_double (Finite x) = to_double (1 + x)"
| "one_plus to_double PosInfinity = PosInfinity"
| "one_plus to_double NegInfinity = NegInfinity"
| "one_plus to_double NaN = NaN"

text \<open>
  \<open>1 / y\<close>, for a \<open>y\<close> that is such a sum: division by zero gives \<open>Infinity\<close>, division by
  an infinity gives zero.
\<close>

fun one_over :: "rounding \<Rightarrow> js_number \<Rightarrow> js_number" where
  "one_over to_double (Finite y) = (if y = 0 then PosInfinity else to_double (1 / y))"
| "one_over to_double PosInfinity = Finite 0"
| "one_over to_double NegInfinity = Finite 0"
| "one_over to_double NaN = NaN"

text \<open>
  What the theorems about scores assume of the rounding, all of it true of the IEEE
  rounding to the nearest double: 0 and 1 are doubles; rounding is monotone; the result of
  rounding is a double, which rounds to itself; adding 1 to a double that is not negative
  does not overflow (the largest double plus 1 rounds to the largest double); and the
  reciprocal of a double that is at least 1 does not round to zero (the reciprocal of the
  largest double is far above the smallest positive double).
\<close>

definition ieee_rounding :: "rounding \<Rightarrow> bool" where
  "ieee_rounding to_double \<longleftrightarrow>
     to_double 0 = Finite 0
     \<and> to_double 1 = Finite 1
     \<and> (\<forall>x y. x \<le> y \<longrightarrow> js_le (to_double x) (to_double y))
     \<and> (\<forall>x y. to_double x = Finite y \<longrightarrow> to_double y = Finite y)
     \<and> (\<forall>x. 0 \<le> x \<and> to_double x = Finite x \<longrightarrow> to_double (1 + x) \<noteq> PosInfinity)
     \<and> (\<forall>y. 1 \<le> y \<and> to_double y = Finite y \<longrightarrow> to_double (1 / y) \<noteq> Finite 0)"

section \<open>Vector store (indexing/vector-store.ts)\<close>

text \<open>
  A row of the \<open>documents\<close> table as \<open>storeDocuments\<close> writes it. The list-valued columns
  are stored as JSON text; \<open>row_folders\<close> holds the decoded list (what
  \<open>JSON.parse(row.folders)\<close> gives back for the text \<open>JSON.stringify(doc.folders)\<close> wrote),
  the themes and key quotes columns are carried as they are. \<open>row_distance\<close> is the
  \<open>_distance\<close> column a vector search adds; \<open>None\<close> is \<open>undefined\<close>. Distances and scores
  are JavaScript numbers.
\<close>

record doc_row =
  row_id :: string
  row_title :: string
  row_folders :: "string list"
  row_created_at :: string
  row_insights_summary :: string
  row_granola_summary :: string
  row_themes_json :: string
  row_key_quotes_json :: string
  row_has_transcript :: bool
  row_distance :: "js_number option"

record doc_hit =
  hit_id :: string
  hit_title :: string
  hit_folders :: "string list"
  hit_created_at :: string
  hit_insights_summary :: string
  hit_granola_summary :: string
  hit_themes :: string
  hit_key_quotes :: string
  hit_has_transcript :: bool
  hit_score :: js_number

datatype chunk_kind = KQuote | KTheme | KSummary | KGranolaSummary

record chunk_row =
  crow_id :: string
  crow_document_id :: string
  crow_content :: string
  crow_type :: chunk_kind
  crow_theme_name :: string
  crow_timestamp :: string
  crow_distance :: "js_number option"

record chunk_hit =
  chit_id :: string
  chit_document_id :: string
  chit_content :: string
  chit_type :: chunk_kind
  chit_theme_name :: string
  chit_timestamp :: string
  chit_score :: js_number

record doc_search_options =
  opt_limit :: "nat option"
  opt_folder :: "string option"

record chunk_search_options =
  copt_limit :: "nat option"
  copt_type :: "chunk_kind option"
  copt_themeName :: "string option"

text \<open>
  \<open>table.search(queryVector).limit(n).toArray()\<close>: the \<open>n\<close> rows nearest to the query.
  The argument \<open>ranked\<close> is the table's rows in order of increasing distance from the
  query vector, each with its \<open>_distance\<close>.
\<close>

definition table_search :: "'r list \<Rightarrow> nat \<Rightarrow> 'r list" where
  "table_search ranked n = take n ranked"

text \<open>
  \<open>row._distance !== undefined ? 1 / (1 + row._distance) : 0\<close>: the sum is rounded, then
  the quotient. A row without \<open>_distance\<close> gets the score 0, and so does a row at the
  distance \<open>Infinity\<close>.
\<close>

definition similarity :: "rounding \<Rightarrow> js_number option \<Rightarrow> js_number" where
  "similarity to_double dv =
     (case dv of Some d \<Rightarrow> one_over to_double (one_plus to_double d) | None \<Rightarrow> Finite 0)"

text \<open>
  The filter callback of \<open>searchDocuments\<close>: \<open>!folder\<close> holds for an absent and for an
  empty folder argument.
\<close>

definition folder_matches :: "(string \<Rightarrow> string) \<Rightarrow> string option \<Rightarrow> doc_row \<Rightarrow> bool" where
  "folder_matches toLowerCase folder row =
     (case folder of
        None \<Rightarrow> True
      | Some f \<Rightarrow>
          if f = [] then True
          else list_ex (\<lambda>g. str_includes (toLowerCase g) (toLowerCase f)) (row_folders row))"

definition doc_hit_of :: "rounding \<Rightarrow> doc_row \<Rightarrow> doc_hit" where
  "doc_hit_of to_double row =
     \<lparr> hit_id = row_id row,
       hit_title = row_title row,
       hit_folders = row_folders row,
       hit_created_at = row_created_at row,
       hit_insights_summary = row_insights_summary row,
       hit_granola_summary = row_granola_summary row,
       hit_themes = row_themes_json row,
       hit_key_quotes = row_key_quotes_json row,
       hit_has_transcript = row_has_transcript row,
       hit_score = similarity to_double (row_distance row) \<rparr>"

text \<open>
  \<open>searchDocuments\<close>. The table argument is \<open>None\<close> when opening or querying the table
  throws; the \<open>catch\<close> turns that into the empty result.
\<close>

definition searchDocuments ::
    "(string \<Rightarrow> string) \<Rightarrow> rounding \<Rightarrow> doc_row list option \<Rightarrow> doc_search_options
       \<Rightarrow> doc_hit list" where
  "searchDocuments toLowerCase to_double tbl options =
     (let limit = with_default 10 (opt_limit options);
          folder = opt_folder options
      in case tbl of
           None \<Rightarrow> []
         | Some ranked \<Rightarrow>
             map (doc_hit_of to_double)
               (filter (folder_matches toLowerCase folder) (table_search ranked limit)))"

definition chunk_matches :: "chunk_kind option \<Rightarrow> string option \<Rightarrow> chunk_row \<Rightarrow> bool" where
  "chunk_matches type themeName row =
     (if type \<noteq> None \<and> Some (crow_type row) \<noteq> type then False
      else if themeName \<noteq> None \<and> themeName \<noteq> Some [] \<and> Some (crow_theme_name row) \<noteq> themeName
        then False
      else True)"

definition chunk_hit_of :: "rounding \<Rightarrow> chunk_row \<Rightarrow> chunk_hit" where
  "chunk_hit_of to_double row =
     \<lparr> chit_id = crow_id row,
       chit_document_id = crow_document_id row,
       chit_content = crow_content row,
       chit_type = crow_type row,
       chit_theme_name = crow_theme_name row,
       chit_timestamp = crow_timestamp row,
       chit_score = similarity to_double (crow_distance row) \<rparr>"

definition searchChunks ::
    "rounding \<Rightarrow> chunk_row list option \<Rightarrow> chunk_search_options \<Rightarrow> chunk_hit list" where
  "searchChunks to_double tbl options =
     (let limit = with_default 20 (copt_limit options)
      in case tbl of
           None \<Rightarrow> []
         | Some ranked \<Rightarrow>
             map (chunk_hit_of to_double)
               (take limit
                 (filter (chunk_matches (copt_type options) (copt_themeName options))
                   (table_search ranked (limit * 2)))))"

section \<open>Values parsed from JSON\<close>

text \<open>
  The model's answer reaches the extractor as the result of \<open>JSON.parse\<close>: a value with
  no static shape. \<open>json\<close> is such a value; a \<open>jsval\<close> is a value or \<open>undefined\<close>
  (\<open>None\<close>). An object is the list of its own properties. Of a number only the sign is
  looked at by the code below.
\<close>

datatype json =
    JNull
  | JBool bool
  | JNum rat
  | JStr string
  | JArr "json list"
  | JObj "(string \<times> json) list"

type_synonym jsval = "json option"

text \<open>
  A thrown value with its message. The messages of the engine's own \<open>TypeError\<close>s are
  abridged; they name the source expression and contain none of the words the retry
  test looks for.
\<close>

datatype js_error = JsError string

fun message :: "js_error \<Rightarrow> string" where
  "message (JsError m) = m"

text \<open>
  What the platform supplies and the code calls: \<open>JSON.parse\<close> (which throws on
  malformed text), the comparison \<open>v > 0\<close> for a string, array or object \<open>v\<close> (decided by
  the language's conversion to a number), and the conversion of a number, array or
  object to a string.
\<close>

record js_runtime =
  JSON_parse :: "string \<Rightarrow> js_error + json"
  coerced_gt0 :: "json \<Rightarrow> bool"
  to_String :: "json \<Rightarrow> string"

text \<open>Truthiness, as \<open>!v\<close>, \<open>v || d\<close> and \<open>v && w\<close> test it.\<close>

fun truthy :: "jsval \<Rightarrow> bool" where
  "truthy None = False"
| "truthy (Some JNull) = False"
| "truthy (Some (JBool b)) = b"
| "truthy (Some (JNum n)) = (n \<noteq> 0)"
| "truthy (Some (JStr s)) = (s \<noteq> [])"
| "truthy (Some (JArr xs)) = True"
| "truthy (Some (JObj kvs)) = True"

text \<open>\<open>v || d\<close> for a default \<open>d\<close> that is a value.\<close>

definition or_default :: "jsval \<Rightarrow> json \<Rightarrow> json" where
  "or_default v d = (if truthy v then the v else d)"

text \<open>\<open>v || undefined\<close>\<close>

definition or_undefined :: "jsval \<Rightarrow> jsval" where
  "or_undefined v = (if truthy v then v else None)"

text \<open>
  Reading a property, \<open>v.key\<close>, for the keys the extractor reads. It throws on \<open>null\<close>
  and \<open>undefined\<close>; strings and arrays have a \<open>length\<close>; other primitives have none of
  these properties.
\<close>

fun js_get :: "jsval \<Rightarrow> string \<Rightarrow> js_error + jsval" where
  "js_get None k = Inl (JsError (''Cannot read properties of undefined, reading '' @ k))"
| "js_get (Some JNull) k = Inl (JsError (''Cannot read properties of null, reading '' @ k))"
| "js_get (Some (JObj kvs)) k = Inr (map_of kvs k)"
| "js_get (Some (JStr s)) k =
     Inr (if k = ''length'' then Some (JNum (of_nat (length s))) else None)"
| "js_get (Some (JArr xs)) k =
     Inr (if k = ''length'' then Some (JNum (of_nat (length xs))) else None)"
| "js_get (Some (JBool b)) k = Inr None"
| "js_get (Some (JNum n)) k = Inr None"

text \<open>\<open>v?.length\<close>\<close>

definition js_get_opt :: "jsval \<Rightarrow> string \<Rightarrow> js_error + jsval" where
  "js_get_opt v k = (if v = None \<or> v = Some JNull then Inr None else js_get v k)"

text \<open>\<open>v > 0\<close>\<close>

fun js_gt0 :: "js_runtime \<Rightarrow> jsval \<Rightarrow> bool" where
  "js_gt0 rt None = False"
| "js_gt0 rt (Some JNull) = False"
| "js_gt0 rt (Some (JBool b)) = b"
| "js_gt0 rt (Some (JNum n)) = (0 < n)"
| "js_gt0 rt (Some v) = coerced_gt0 rt v"

text \<open>
  A value inside a template literal: a string stands for itself, \<open>undefined\<close>, \<open>null\<close> and
  the booleans are spelled out, any other value is converted by the platform.
\<close>

fun template_string :: "js_runtime \<Rightarrow> jsval \<Rightarrow> string" where
  "template_string rt (Some (JStr s)) = s"
| "template_string rt None = ''undefined''"
| "template_string rt (Some JNull) = ''null''"
| "template_string rt (Some (JBool b)) = (if b then ''true'' else ''false'')"
| "template_string rt (Some v) = to_String rt v"

text \<open>
  The receiver of \<open>.filter(...)\<close> or \<open>.map(...)\<close>: the elements of an array. On \<open>undefined\<close>
  and \<open>null\<close> reading the method throws; on anything else the call throws, since no other
  parsed value has such a method. \<open>recv\<close> is the receiver as the source writes it.
\<close>

fun js_elements :: "string \<Rightarrow> string \<Rightarrow> jsval \<Rightarrow> js_error + json list" where
  "js_elements recv method (Some (JArr xs)) = Inr xs"
| "js_elements recv method None =
     Inl (JsError (''Cannot read properties of undefined, reading '' @ method))"
| "js_elements recv method (Some JNull) =
     Inl (JsError (''Cannot read properties of null, reading '' @ method))"
| "js_elements recv method v = Inl (JsError (recv @ ''.'' @ method @ '' is not a function''))"

text \<open>
  \<open>xs.map(f)\<close> and \<open>xs.filter(p)\<close> for callbacks that may throw: the elements are visited
  in order and the first exception ends the call.
\<close>

fun map_throwing :: "('a \<Rightarrow> js_error + 'b) \<Rightarrow> 'a list \<Rightarrow> js_error + 'b list" where
  "map_throwing f [] = Inr []"
| "map_throwing f (x # xs) =
     (case f x of
        Inl e \<Rightarrow> Inl e
      | Inr y \<Rightarrow> (case map_throwing f xs of Inl e \<Rightarrow> Inl e | Inr ys \<Rightarrow> Inr (y # ys)))"

fun filter_throwing :: "('a \<Rightarrow> js_error + bool) \<Rightarrow> 'a list \<Rightarrow> js_error + 'a list" where
  "filter_throwing p [] = Inr []"
| "filter_throwing p (x # xs) =
     (case p x of
        Inl e \<Rightarrow> Inl e
      | Inr b \<Rightarrow>
          (case filter_throwing p xs of
             Inl e \<Rightarrow> Inl e
           | Inr ys \<Rightarrow> Inr (if b then x # ys else ys)))"

section \<open>Theme registry (indexing/themes.ts)\<close>

record ThemeDefinition =
  theme_id :: string
  theme_name :: string
  theme_prompt :: string

definition THEMES :: "ThemeDefinition list" where
  "THEMES =
     [ \<lparr> theme_id = ''pain-points'', theme_name = ''Pain Points'',
         theme_prompt = ''User frustrations, problems, complaints, difficulties, blockers'' \<rparr>,
       \<lparr> theme_id = ''feature-requests'', theme_name = ''Feature Requests'',
         theme_prompt =
           ''Desired features, wishlist items, '' @ [CHR 0x22] @ ''I wish it could...''
             @ [CHR 0x22] @ '', suggestions for improvement'' \<rparr>,
       \<lparr> theme_id = ''positive-feedback'', theme_name = ''Positive Feedback'',
         theme_prompt = ''What users liked, praised, found valuable, appreciated, works well'' \<rparr>,
       \<lparr> theme_id = ''pricing'', theme_name = ''Pricing'',
         theme_prompt =
           ''Cost concerns, value perception, willingness to pay, budget constraints, pricing feedback'' \<rparr>,
       \<lparr> theme_id = ''competition'', theme_name = ''Competition'',
         theme_prompt =
           ''Mentions of competitors, alternatives, comparisons, switching from/to other products'' \<rparr>,
       \<lparr> theme_id = ''workflow'', theme_name = ''Workflow'',
         theme_prompt =
           ''How users currently do things, workarounds, existing processes, current tools used'' \<rparr>,
       \<lparr> theme_id = ''decisions'', theme_name = ''Decisions'',
         theme_prompt = ''Key decisions made, action items, next steps, conclusions, agreements'' \<rparr>,
       \<lparr> theme_id = ''questions'', theme_name = ''Questions'',
         theme_prompt =
           ''Open questions raised, things needing clarification, uncertainties, follow-ups needed'' \<rparr> ]"

definition getThemeById :: "string \<Rightarrow> ThemeDefinition option" where
  "getThemeById i = find (\<lambda>t. theme_id t = i) THEMES"

definition getThemeNames :: "string list" where
  "getThemeNames = map theme_id THEMES"

definition getThemePromptList :: string where
  "getThemePromptList =
     join [CHR 0x0A] (map (\<lambda>t. ''- '' @ theme_id t @ '': '' @ theme_prompt t) THEMES)"

text \<open>\<open>themeNames.includes(v)\<close>: only a string equal to one of the ids is included.\<close>

fun themeNames_includes :: "jsval \<Rightarrow> bool" where
  "themeNames_includes (Some (JStr s)) = (s \<in> set getThemeNames)"
| "themeNames_includes v = False"

section \<open>Insight extractor (indexing/insight-extractor.ts)\<close>

datatype Speaker = Me | Participant

record ThemeEvidence =
  ev_text :: json
  ev_speaker :: Speaker

text \<open>
  A cleaned theme is \<open>{...t, evidence: ...}\<close>: the properties of the model's theme object
  other than \<open>evidence\<close> (\<open>th_spread\<close>, among them \<open>name\<close> and \<open>description\<close>) and the cleaned
  evidence list.
\<close>

record Theme =
  th_spread :: "(string \<times> json) list"
  th_evidence :: "ThemeEvidence list"

definition th_name :: "Theme \<Rightarrow> jsval" where
  "th_name t = map_of (th_spread t) ''name''"

definition th_description :: "Theme \<Rightarrow> jsval" where
  "th_description t = map_of (th_spread t) ''description''"

record Quote =
  q_text :: json
  q_speaker :: Speaker
  q_timestamp :: jsval
  q_context :: json
  q_theme :: jsval

record ExtractedInsights =
  insights_summary :: json
  themes :: "Theme list"
  key_quotes :: "Quote list"

text \<open>Sequencing of steps that may throw: the first exception ends the computation.\<close>

definition and_then :: "js_error + 'a \<Rightarrow> ('a \<Rightarrow> js_error + 'b) \<Rightarrow> js_error + 'b" where
  "and_then m f = (case m of Inl e \<Rightarrow> Inl e | Inr x \<Rightarrow> f x)"

text \<open>\<open>s === 'me' || s === 'participant' ? s : 'participant'\<close>\<close>

definition validateSpeaker :: "jsval \<Rightarrow> Speaker" where
  "validateSpeaker s =
     (if s = Some (JStr ''me'') then Me
      else if s = Some (JStr ''participant'') then Participant
      else Participant)"

text \<open>\<open>v.length > 0\<close>\<close>

definition length_gt0 :: "js_runtime \<Rightarrow> json \<Rightarrow> js_error + bool" where
  "length_gt0 rt v = and_then (js_get (Some v) ''length'') (\<lambda>len. Inr (js_gt0 rt len))"

text \<open>
  The callback of the themes filter:
  \<open>t.name && themeNames.includes(t.name) && t.evidence?.length > 0\<close>.
  It looks at the evidence as the model sent it.
\<close>

definition theme_kept :: "js_runtime \<Rightarrow> json \<Rightarrow> js_error + bool" where
  "theme_kept rt t =
     and_then (js_get (Some t) ''name'') (\<lambda>name.
       if \<not> truthy name then Inr False
       else if \<not> themeNames_includes name then Inr False
       else
         and_then (js_get (Some t) ''evidence'') (\<lambda>ev.
         and_then (js_get_opt ev ''length'') (\<lambda>len.
           Inr (js_gt0 rt len))))"

text \<open>The callback of the evidence map: a bare string, or an object with text and speaker.\<close>

definition clean_evidence :: "json \<Rightarrow> js_error + ThemeEvidence" where
  "clean_evidence e =
     (case e of
        JStr s \<Rightarrow> Inr \<lparr> ev_text = JStr s, ev_speaker = Participant \<rparr>
      | _ \<Rightarrow>
          and_then (js_get (Some e) ''text'') (\<lambda>tx.
          and_then (js_get (Some e) ''speaker'') (\<lambda>sp.
            Inr \<lparr> ev_text = or_default tx (JStr []), ev_speaker = validateSpeaker sp \<rparr>)))"

text \<open>
  The own properties \<open>...t\<close> copies. The callback below runs only on themes that passed
  the filter, which are objects.
\<close>

fun own_properties :: "json \<Rightarrow> (string \<times> json) list" where
  "own_properties (JObj kvs) = kvs"
| "own_properties v = []"

text \<open>
  The callback of the themes map:
  \<open>{...t, evidence: t.evidence.map(...).filter(e => e.text.length > 0)}\<close>
\<close>

definition clean_theme :: "js_runtime \<Rightarrow> json \<Rightarrow> js_error + Theme" where
  "clean_theme rt t =
     and_then (js_get (Some t) ''evidence'') (\<lambda>ev.
     and_then (js_elements ''t.evidence'' ''map'' ev) (\<lambda>es.
     and_then (map_throwing clean_evidence es) (\<lambda>cleaned.
     and_then (filter_throwing (\<lambda>e. length_gt0 rt (ev_text e)) cleaned) (\<lambda>kept.
       Inr \<lparr> th_spread = filter (\<lambda>kv. fst kv \<noteq> ''evidence'') (own_properties t),
             th_evidence = kept \<rparr>))))"

text \<open>The callback of the key quotes map.\<close>

definition clean_quote :: "json \<Rightarrow> js_error + Quote" where
  "clean_quote q =
     and_then (js_get (Some q) ''text'') (\<lambda>tx.
     and_then (js_get (Some q) ''speaker'') (\<lambda>sp.
     and_then (js_get (Some q) ''timestamp'') (\<lambda>ts.
     and_then (js_get (Some q) ''context'') (\<lambda>cx.
     and_then (js_get (Some q) ''theme'') (\<lambda>th.
       Inr \<lparr> q_text = or_default tx (JStr []),
             q_speaker = validateSpeaker sp,
             q_timestamp = or_undefined ts,
             q_context = or_default cx (JStr ''Context not provided''),
             q_theme = (if truthy th \<and> themeNames_includes th then th else None) \<rparr>)))))"

text \<open>The object the \<open>try\<close> block returns, built from the parsed answer.\<close>

definition validate_insights :: "js_runtime \<Rightarrow> json \<Rightarrow> js_error + ExtractedInsights" where
  "validate_insights rt parsed =
     and_then (js_get (Some parsed) ''insights_summary'') (\<lambda>summary.
     and_then (js_get (Some parsed) ''themes'') (\<lambda>ths.
     and_then (js_elements ''(parsed.themes || [])'' ''filter'' (Some (or_default ths (JArr [])))) (\<lambda>ts.
     and_then (filter_throwing (theme_kept rt) ts) (\<lambda>kept.
     and_then (map_throwing (clean_theme rt) kept) (\<lambda>cleaned_themes.
     and_then (js_get (Some parsed) ''key_quotes'') (\<lambda>kqs.
     and_then (js_elements ''(parsed.key_quotes || [])'' ''map'' (Some (or_default kqs (JArr [])))) (\<lambda>qs.
     and_then (map_throwing clean_quote qs) (\<lambda>cleaned_quotes.
     and_then (filter_throwing (\<lambda>q. length_gt0 rt (q_text q)) cleaned_quotes) (\<lambda>kept_quotes.
       Inr \<lparr> insights_summary = or_default summary (JStr ''No insights extracted''),
             themes = cleaned_themes,
             key_quotes = kept_quotes \<rparr>)))))))))"

text \<open>
  The lazily constructed client: \<open>openaiClient\<close> says whether the module's client exists,
  \<open>OPENAI_API_KEY\<close> is the environment variable.
\<close>

record openai_env =
  openaiClient :: bool
  OPENAI_API_KEY :: "string option"

definition getOpenAI :: "openai_env \<Rightarrow> js_error + openai_env" where
  "getOpenAI env =
     (if \<not> openaiClient env then
        (if OPENAI_API_KEY env = None \<or> OPENAI_API_KEY env = Some [] then
           Inl (JsError ''OPENAI_API_KEY environment variable is required'')
         else Inr (env \<lparr> openaiClient := True \<rparr>))
      else Inr env)"

text \<open>
  The chat request and the part of the response the code reads: for each choice the
  content of its message (\<open>None\<close> when the message or its content is missing). The system
  message is a fixed text built from the theme list and is left out of the request record.
  The service is a function from the attempt number and the request to its answer or
  the exception the call throws.
\<close>

record chat_request =
  cr_model :: string
  cr_user :: string

record chat_response =
  choices :: "string option list"

type_synonym chat_service = "nat \<Rightarrow> chat_request \<Rightarrow> js_error + chat_response"

definition userPrompt :: "string \<Rightarrow> string \<Rightarrow> string \<Rightarrow> string" where
  "userPrompt title notes transcript =
     ''Meeting Title: '' @ title @ [CHR 0x0A, CHR 0x0A]
     @ ''NOTES (Granola'' @ [CHR 0x27] @ ''s AI-generated summary):'' @ [CHR 0x0A]
     @ (if notes = [] then ''No notes available'' else notes) @ [CHR 0x0A, CHR 0x0A]
     @ ''TRANSCRIPT:'' @ [CHR 0x0A]
     @ (if transcript = [] then ''No transcript available'' else transcript) @ [CHR 0x0A, CHR 0x0A]
     @ ''Please analyze this meeting and extract insights as specified.''"

text \<open>The request of every attempt; the model defaults to \<open>gpt-4o-mini\<close>.\<close>

definition chat_request_for :: "string option \<Rightarrow> string \<Rightarrow> string \<Rightarrow> string \<Rightarrow> chat_request" where
  "chat_request_for model title notes transcript =
     \<lparr> cr_model = with_default ''gpt-4o-mini'' model,
       cr_user = userPrompt title notes transcript \<rparr>"

definition maxRetries :: nat where
  "maxRetries = 3"

definition isRetryable :: "js_error \<Rightarrow> bool" where
  "isRetryable err =
     (str_includes (message err) ''Connection''
      \<or> str_includes (message err) ''timeout''
      \<or> str_includes (message err) ''ECONNRESET''
      \<or> str_includes (message err) ''rate limit'')"

text \<open>The body of the \<open>try\<close> block for one attempt.\<close>

definition extract_attempt ::
    "js_runtime \<Rightarrow> chat_service \<Rightarrow> chat_request \<Rightarrow> nat \<Rightarrow> js_error + ExtractedInsights" where
  "extract_attempt rt create req attempt =
     and_then (create attempt req) (\<lambda>response.
       let content = (case choices response of [] \<Rightarrow> None | c # cs \<Rightarrow> c)
       in if content = None \<or> content = Some []
          then Inl (JsError ''No content in OpenAI response'')
          else and_then (JSON_parse rt (the content)) (validate_insights rt))"

text \<open>
  The retry loop from attempt \<open>attempt\<close> on. \<open>Some\<close> is the \<open>return\<close> inside the \<open>try\<close>,
  \<open>None\<close> is the \<open>break\<close>. The loop is entered with \<open>attempt = 1\<close> and \<open>continue\<close> is taken
  only when \<open>attempt < maxRetries\<close>, so the loop condition holds whenever it is tested.
  The waiting between attempts does not influence the result and is not part of it.
\<close>

function extract_loop :: "(nat \<Rightarrow> js_error + ExtractedInsights) \<Rightarrow> nat \<Rightarrow> ExtractedInsights option" where
  "extract_loop body attempt =
     (case body attempt of
        Inr result \<Rightarrow> Some result
      | Inl err \<Rightarrow>
          if isRetryable err \<and> attempt < maxRetries
          then extract_loop body (attempt + 1)
          else None)"
  by pat_completeness auto
termination
  by (relation "measure (\<lambda>(body, attempt). maxRetries - attempt)") auto

declare extract_loop.simps [simp del]

text \<open>\<open>notes?.substring(0, 200) || 'Extraction failed'\<close> with no themes and no quotes.\<close>

definition minimal_insights :: "string \<Rightarrow> ExtractedInsights" where
  "minimal_insights notes =
     \<lparr> insights_summary =
         JStr (if take 200 notes = [] then ''Extraction failed'' else take 200 notes),
       themes = [],
       key_quotes = [] \<rparr>"

definition extractInsights ::
    "openai_env \<Rightarrow> js_runtime \<Rightarrow> chat_service \<Rightarrow> string \<Rightarrow> string \<Rightarrow> string \<Rightarrow> string option
       \<Rightarrow> js_error + ExtractedInsights" where
  "extractInsights env rt create transcript notes title model =
     and_then (getOpenAI env) (\<lambda>env'.
       case extract_loop (extract_attempt rt create (chat_request_for model title notes transcript)) 1 of
         Some result \<Rightarrow> Inr result
       | None \<Rightarrow> Inr (minimal_insights notes))"

section \<open>Embedding generator (indexing/embedder.ts)\<close>

text \<open>
  The embeddings request and the \<open>data\<close> array of the response. The service is a
  function from a call number and the request to its answer or the exception thrown:
  for \<open>generateEmbedding\<close> the call number is the attempt, for \<open>generateEmbeddings\<close> it
  is the offset of the batch.
\<close>

datatype embedding_input = InputText string | InputBatch "string list"

record embedding_request =
  er_model :: string
  er_input :: embedding_input

record embedding_item =
  ei_index :: nat
  ei_embedding :: "real list"

type_synonym embedding_service = "nat \<Rightarrow> embedding_request \<Rightarrow> js_error + embedding_item list"

definition DEFAULT_MODEL :: string where
  "DEFAULT_MODEL = ''text-embedding-3-small''"

definition EMBEDDING_DIMENSIONS :: nat where
  "EMBEDDING_DIMENSIONS = 1536"

definition getEmbeddingDimensions :: nat where
  "getEmbeddingDimensions = EMBEDDING_DIMENSIONS"

text \<open>
  What one call of \<open>generateEmbedding\<close> does: the requests it sends, the delays (in
  milliseconds) it waits between them, and the vector it returns or the exception it
  throws.
\<close>

record embedding_run =
  ge_requests :: "embedding_request list"
  ge_delays :: "nat list"
  ge_outcome :: "js_error + real list"

text \<open>The body of the \<open>try\<close> block: the request, then \<open>response.data[0].embedding\<close>.\<close>

definition embed_attempt :: "embedding_service \<Rightarrow> embedding_request \<Rightarrow> nat \<Rightarrow> js_error + real list" where
  "embed_attempt create req attempt =
     and_then (create attempt req) (\<lambda>data.
       case data of
         [] \<Rightarrow> Inl (JsError ''Cannot read properties of undefined, reading embedding'')
       | item # items \<Rightarrow> Inr (ei_embedding item))"

text \<open>
  The retry loop from attempt \<open>attempt\<close> on. As in the extractor the loop condition holds
  whenever it is tested, so the \<open>throw lastError\<close> after the loop is never reached.
\<close>

function embed_loop :: "embedding_service \<Rightarrow> embedding_request \<Rightarrow> nat \<Rightarrow> embedding_run" where
  "embed_loop create req attempt =
     (case embed_attempt create req attempt of
        Inr v \<Rightarrow> \<lparr> ge_requests = [req], ge_delays = [], ge_outcome = Inr v \<rparr>
      | Inl err \<Rightarrow>
          if isRetryable err \<and> attempt < maxRetries
          then
            (let delay = 2 ^ attempt * 1000;
                 rest = embed_loop create req (attempt + 1)
             in \<lparr> ge_requests = req # ge_requests rest,
                  ge_delays = delay # ge_delays rest,
                  ge_outcome = ge_outcome rest \<rparr>)
          else \<lparr> ge_requests = [req], ge_delays = [], ge_outcome = Inl err \<rparr>)"
  by pat_completeness auto
termination
  by (relation "measure (\<lambda>(create, req, attempt). maxRetries - attempt)") auto

declare embed_loop.simps [simp del]

definition generateEmbedding ::
    "openai_env \<Rightarrow> embedding_service \<Rightarrow> string \<Rightarrow> string option \<Rightarrow> embedding_run" where
  "generateEmbedding env create text model =
     (case getOpenAI env of
        Inl e \<Rightarrow> \<lparr> ge_requests = [], ge_delays = [], ge_outcome = Inl e \<rparr>
      | Inr env' \<Rightarrow>
          (let truncatedText = take 8000 text
           in embed_loop create
                \<lparr> er_model = with_default DEFAULT_MODEL model,
                  er_input = InputText truncatedText \<rparr> 1))"

text \<open>
  The batch loop of \<open>generateEmbeddings\<close> from offset \<open>i\<close> on, with the vectors collected
  so far. \<open>None\<close> stands for a loop that never ends (a batch size of 0). The response's
  \<open>data\<close> is sorted by \<open>index\<close> (a stable sort) before its vectors are appended.
\<close>

partial_function (option) embed_batches ::
    "embedding_service \<Rightarrow> string \<Rightarrow> nat \<Rightarrow> string list \<Rightarrow> nat \<Rightarrow> real list list
       \<Rightarrow> (js_error + real list list) option" where
  "embed_batches create model batchSize texts i results =
     (if i < length texts then
        (let batch = take batchSize (drop i texts);
             truncatedBatch = map (take 8000) batch
         in case create i \<lparr> er_model = model, er_input = InputBatch truncatedBatch \<rparr> of
              Inl err \<Rightarrow> Some (Inl err)
            | Inr data \<Rightarrow>
                (let sortedData = sort_key ei_index data
                 in embed_batches create model batchSize texts (i + batchSize)
                      (results @ map ei_embedding sortedData)))
      else Some (Inr results))"

definition generateEmbeddings ::
    "openai_env \<Rightarrow> embedding_service \<Rightarrow> string list \<Rightarrow> string option \<Rightarrow> nat option
       \<Rightarrow> (js_error + real list list) option" where
  "generateEmbeddings env create texts model batchSize =
     (case getOpenAI env of
        Inl e \<Rightarrow> Some (Inl e)
      | Inr env' \<Rightarrow>
          embed_batches create (with_default DEFAULT_MODEL model) (with_default 100 batchSize)
            texts 0 [])"

text \<open>\<open>createSearchableText\<close>: a label in front of the text, by kind of content.\<close>

record searchable_content =
  sc_type :: chunk_kind
  sc_text :: jsval
  sc_theme_name :: jsval
  sc_context :: jsval

definition createSearchableText :: "js_runtime \<Rightarrow> searchable_content \<Rightarrow> string" where
  "createSearchableText rt content =
     (case sc_type content of
        KSummary \<Rightarrow> ''Meeting summary: '' @ template_string rt (sc_text content)
      | KGranolaSummary \<Rightarrow> ''Meeting notes: '' @ template_string rt (sc_text content)
      | KTheme \<Rightarrow>
          ''Theme '' @ template_string rt (sc_theme_name content) @ '': ''
            @ template_string rt (sc_text content)
      | KQuote \<Rightarrow>
          if truthy (sc_context content)
          then ''Quote about '' @ template_string rt (sc_context content) @ '': '' @ [CHR 0x22]
                 @ template_string rt (sc_text content) @ [CHR 0x22]
          else ''Quote: '' @ [CHR 0x22] @ template_string rt (sc_text content) @ [CHR 0x22])"

section \<open>Indexing (the index and sync commands of index.ts)\<close>

text \<open>
  What the loop reads for one directory of the export: its name, the parsed
  \<open>document.json\<close> (\<open>None\<close> when the file does not exist), the notes with the front
  matter removed (empty when there is no notes file), the transcript text, whether a
  transcript file exists, and the folder names found in the notes' front matter.
\<close>

record GranolaDocument =
  gd_id :: string
  gd_title :: "string option"
  gd_created_at :: string
  gd_updated_at :: "string option"

record doc_dir =
  dd_name :: string
  dd_document :: "GranolaDocument option"
  dd_notes :: string
  dd_transcript :: string
  dd_has_transcript :: bool
  dd_folders :: "string list"

record IndexedDocument =
  idoc_id :: string
  idoc_title :: string
  idoc_folders :: "string list"
  idoc_created_at :: string
  idoc_updated_at :: "string option"
  idoc_granola_summary :: string
  idoc_themes :: "Theme list"
  idoc_key_quotes :: "Quote list"
  idoc_insights_summary :: json
  idoc_has_transcript :: bool

record ChunkRecord =
  ck_id :: string
  ck_document_id :: string
  ck_content :: jsval
  ck_type :: chunk_kind
  ck_theme_name :: jsval
  ck_timestamp :: jsval
  ck_vector :: "real list"

record index_options =
  skipExtraction :: bool
  model_option :: "string option"

text \<open>
  The two arrays the loop fills; after the loop they are handed to \<open>storeDocuments\<close> and
  \<open>storeChunks\<close>, which overwrite the two tables with them.
\<close>

record index_state =
  indexedDocs :: "(IndexedDocument \<times> real list) list"
  allChunks :: "ChunkRecord list"

datatype command = IndexCommand | SyncCommand

type_synonym extractor =
  "string \<Rightarrow> string \<Rightarrow> string \<Rightarrow> string option \<Rightarrow> js_error + ExtractedInsights"

type_synonym embedder = "string \<Rightarrow> js_error + real list"

text \<open>The decimal digits of an array index inside a template literal.\<close>

fun decimal :: "nat \<Rightarrow> string" where
  "decimal n = (if n < 10 then [char_of (48 + n)] else decimal (n div 10) @ [char_of (48 + n mod 10)])"

declare decimal.simps [simp del]

text \<open>The loop over \<open>insights.themes\<close>; it is the same in both commands.\<close>

definition theme_text :: "js_runtime \<Rightarrow> Theme \<Rightarrow> string" where
  "theme_text rt theme =
     (let evidenceTexts =
            map (\<lambda>e. ''['' @ (if ev_speaker e = Me then ''ME'' else ''PARTICIPANT'') @ ''] ''
                        @ template_string rt (Some (ev_text e)))
                (th_evidence theme)
      in createSearchableText rt
           \<lparr> sc_type = KTheme,
             sc_text = Some (JStr (template_string rt (th_description theme) @ ''. Evidence: ''
                                     @ join '' | '' evidenceTexts)),
             sc_theme_name = th_name theme,
             sc_context = None \<rparr>)"

definition theme_chunk :: "js_runtime \<Rightarrow> string \<Rightarrow> Theme \<Rightarrow> real list \<Rightarrow> ChunkRecord" where
  "theme_chunk rt docId theme themeVector =
     \<lparr> ck_id = docId @ ''_theme_'' @ template_string rt (th_name theme),
       ck_document_id = docId,
       ck_content = th_description theme,
       ck_type = KTheme,
       ck_theme_name = th_name theme,
       ck_timestamp = None,
       ck_vector = themeVector \<rparr>"

fun theme_chunks ::
    "js_runtime \<Rightarrow> embedder \<Rightarrow> string \<Rightarrow> Theme list \<Rightarrow> index_state \<Rightarrow> js_error + index_state" where
  "theme_chunks rt embedText docId [] st = Inr st"
| "theme_chunks rt embedText docId (theme # rest) st =
     (case embedText (theme_text rt theme) of
        Inl e \<Rightarrow> Inl e
      | Inr themeVector \<Rightarrow>
          theme_chunks rt embedText docId rest
            (st \<lparr> allChunks := allChunks st @ [theme_chunk rt docId theme themeVector] \<rparr>))"

text \<open>
  The loop over \<open>insights.key_quotes\<close> from index \<open>i\<close> on. The index command copies the
  quote's theme into the chunk, the sync command does not.
\<close>

definition quote_text :: "js_runtime \<Rightarrow> Quote \<Rightarrow> string" where
  "quote_text rt quote =
     createSearchableText rt
       \<lparr> sc_type = KQuote, sc_text = Some (q_text quote),
         sc_theme_name = None, sc_context = Some (q_context quote) \<rparr>"

definition quote_chunk :: "command \<Rightarrow> string \<Rightarrow> nat \<Rightarrow> Quote \<Rightarrow> real list \<Rightarrow> ChunkRecord" where
  "quote_chunk cmd docId i quote quoteVector =
     \<lparr> ck_id = docId @ ''_quote_'' @ decimal i,
       ck_document_id = docId,
       ck_content = Some (q_text quote),
       ck_type = KQuote,
       ck_theme_name = (if cmd = IndexCommand then q_theme quote else None),
       ck_timestamp = q_timestamp quote,
       ck_vector = quoteVector \<rparr>"

fun quote_chunks ::
    "command \<Rightarrow> js_runtime \<Rightarrow> embedder \<Rightarrow> string \<Rightarrow> nat \<Rightarrow> Quote list \<Rightarrow> index_state
       \<Rightarrow> js_error + index_state" where
  "quote_chunks cmd rt embedText docId i [] st = Inr st"
| "quote_chunks cmd rt embedText docId i (quote # rest) st =
     (case embedText (quote_text rt quote) of
        Inl e \<Rightarrow> Inl e
      | Inr quoteVector \<Rightarrow>
          quote_chunks cmd rt embedText docId (i + 1) rest
            (st \<lparr> allChunks := allChunks st @ [quote_chunk cmd docId i quote quoteVector] \<rparr>))"

text \<open>
  The insights a document starts with (and keeps when extraction is skipped or there is
  neither transcript nor notes): the first 500 characters of the notes.
\<close>

definition initial_insights :: "string \<Rightarrow> ExtractedInsights" where
  "initial_insights notes =
     \<lparr> insights_summary =
         JStr (if take 500 notes = [] then ''No summary available'' else take 500 notes),
       themes = [],
       key_quotes = [] \<rparr>"

text \<open>\<open>docJson.title || dir.name\<close>\<close>

definition title_of :: "doc_dir \<Rightarrow> GranolaDocument \<Rightarrow> string" where
  "title_of dir docJson =
     (if gd_title docJson = None \<or> gd_title docJson = Some []
      then dd_name dir else the (gd_title docJson))"

definition indexed_document :: "doc_dir \<Rightarrow> GranolaDocument \<Rightarrow> ExtractedInsights \<Rightarrow> IndexedDocument" where
  "indexed_document dir docJson insights =
     \<lparr> idoc_id = gd_id docJson,
       idoc_title = title_of dir docJson,
       idoc_folders = dd_folders dir,
       idoc_created_at = gd_created_at docJson,
       idoc_updated_at = gd_updated_at docJson,
       idoc_granola_summary = dd_notes dir,
       idoc_themes = themes insights,
       idoc_key_quotes = key_quotes insights,
       idoc_insights_summary = insights_summary insights,
       idoc_has_transcript = dd_has_transcript dir \<rparr>"

definition summary_chunk :: "GranolaDocument \<Rightarrow> ExtractedInsights \<Rightarrow> real list \<Rightarrow> ChunkRecord" where
  "summary_chunk docJson insights summaryVector =
     \<lparr> ck_id = gd_id docJson @ ''_summary'',
       ck_document_id = gd_id docJson,
       ck_content = Some (insights_summary insights),
       ck_type = KSummary,
       ck_theme_name = None,
       ck_timestamp = None,
       ck_vector = summaryVector \<rparr>"

text \<open>
  The body of the loop for a directory whose \<open>document.json\<close> exists: extract the insights
  (unless skipped), embed the summary, push the document, then the chunks. The index
  command pushes a summary chunk after the document; the sync command goes on to the
  themes without one.
\<close>

definition process_document ::
    "command \<Rightarrow> js_runtime \<Rightarrow> extractor \<Rightarrow> embedder \<Rightarrow> index_options \<Rightarrow> doc_dir
       \<Rightarrow> GranolaDocument \<Rightarrow> index_state \<Rightarrow> js_error + index_state" where
  "process_document cmd rt extract embedText options dir docJson st =
     (let notes = dd_notes dir;
          transcript = dd_transcript dir
      in and_then
           (if \<not> skipExtraction options \<and> (transcript \<noteq> [] \<or> notes \<noteq> [])
            then extract transcript notes (title_of dir docJson) (model_option options)
            else Inr (initial_insights notes))
           (\<lambda>insights.
              let indexedDoc = indexed_document dir docJson insights;
                  summaryText =
                    createSearchableText rt
                      \<lparr> sc_type = KSummary, sc_text = Some (insights_summary insights),
                        sc_theme_name = None, sc_context = None \<rparr>
              in and_then (embedText summaryText)
                   (\<lambda>summaryVector.
                      let st1 = st \<lparr> indexedDocs := indexedDocs st @ [(indexedDoc, summaryVector)] \<rparr>;
                          st2 =
                            (if cmd = IndexCommand
                             then st1 \<lparr> allChunks := allChunks st1 @
                                          [summary_chunk docJson insights summaryVector] \<rparr>
                             else st1)
                      in and_then (theme_chunks rt embedText (gd_id docJson) (themes insights) st2)
                           (quote_chunks cmd rt embedText (gd_id docJson) 0 (key_quotes insights)))))"

text \<open>
  The loop over the directories. A directory without \<open>document.json\<close> is skipped; an
  exception ends the run before anything is stored.
\<close>

fun process_dirs ::
    "command \<Rightarrow> js_runtime \<Rightarrow> extractor \<Rightarrow> embedder \<Rightarrow> index_options \<Rightarrow> doc_dir list
       \<Rightarrow> index_state \<Rightarrow> js_error + index_state" where
  "process_dirs cmd rt extract embedText options [] st = Inr st"
| "process_dirs cmd rt extract embedText options (dir # rest) st =
     (case dd_document dir of
        None \<Rightarrow> process_dirs cmd rt extract embedText options rest st
      | Some docJson \<Rightarrow>
          (case process_document cmd rt extract embedText options dir docJson st of
             Inl e \<Rightarrow> Inl e
           | Inr st' \<Rightarrow> process_dirs cmd rt extract embedText options rest st'))"

text \<open>
  The indexing phase of a command: the documents and chunks it stores, or the exception
  that ends it.
\<close>

definition indexing_run ::
    "command \<Rightarrow> js_runtime \<Rightarrow> extractor \<Rightarrow> embedder \<Rightarrow> index_options \<Rightarrow> doc_dir list
       \<Rightarrow> js_error + index_state" where
  "indexing_run cmd rt extract embedText options docDirs =
     process_dirs cmd rt extract embedText options docDirs \<lparr> indexedDocs = [], allChunks = [] \<rparr>"

section \<open>Example inputs\<close>

text \<open>Two answers of the model, as parsed, and a runtime that parses the texts \<open>A\<close> and \<open>B\<close> to them.\<close>

definition answer_A :: json where
  "answer_A =
     JObj [(''insights_summary'', JStr ''Pricing came up.''),
           (''themes'',
              JArr [JObj [(''name'', JStr ''pricing''),
                          (''description'', JStr ''Cost was discussed''),
                          (''evidence'',
                             JArr [JObj [(''text'', JStr []), (''speaker'', JStr ''me'')]])]]),
           (''key_quotes'', JArr [])]"

definition answer_B :: json where
  "answer_B =
     JObj [(''key_quotes'',
              JArr [JObj [(''text'', JStr ''Too expensive for us''),
                          (''speaker'', JStr ''customer''),
                          (''theme'', JStr ''pricing'')],
                    JObj [(''text'', JStr []), (''speaker'', JStr ''me'')],
                    JObj [(''text'', JStr ''We will follow up''),
                          (''speaker'', JStr ''me''),
                          (''theme'', JStr ''budget'')]])]"

definition example_runtime :: js_runtime where
  "example_runtime =
     \<lparr> JSON_parse =
         (\<lambda>s. if s = ''A'' then Inr answer_A
              else if s = ''B'' then Inr answer_B
              else Inl (JsError ''Unexpected end of JSON input'')),
       coerced_gt0 = (\<lambda>v. False),
       to_String = (\<lambda>v. ''[object Object]'') \<rparr>"

definition configured_env :: openai_env where
  "configured_env = \<lparr> openaiClient = False, OPENAI_API_KEY = Some ''sk-test'' \<rparr>"

definition unconfigured_env :: openai_env where
  "unconfigured_env = \<lparr> openaiClient = False, OPENAI_API_KEY = None \<rparr>"

text \<open>A chat service that always answers with the given content, and one that always throws.\<close>

definition answering_service :: "string \<Rightarrow> chat_service" where
  "answering_service content = (\<lambda>attempt req. Inr \<lparr> choices = [Some content] \<rparr>)"

definition failing_service :: "string \<Rightarrow> chat_service" where
  "failing_service msg = (\<lambda>attempt req. Inl (JsError msg))"

text \<open>
  A lower-casing that folds the ASCII capitals and leaves every other character as it is:
  on ASCII text it is what \<open>toLowerCase\<close> computes. The strings of the examples are ASCII.
\<close>

definition lower_char :: "char \<Rightarrow> char" where
  "lower_char c =
     (let n = (of_char c :: nat) in if 65 \<le> n \<and> n \<le> 90 then char_of (n + 32) else c)"

definition ascii_lower :: "string \<Rightarrow> string" where
  "ascii_lower s = map lower_char s"

text \<open>
  A rounding that leaves every exact result as it is. The sums and quotients that the
  examples state (1 + 0, 1 + 3, 1 / 1 and 1 / 4) are doubles, so on them it is what the
  rounding to the nearest double computes.
\<close>

definition exact_rounding :: rounding where
  "exact_rounding = Finite"

text \<open>
  Rows of the documents table: three in order of distance from a query, one at the
  distance \<open>Infinity\<close> and one without a distance.
\<close>

definition row_A :: doc_row where
  "row_A =
     \<lparr> row_id = ''doc-a'', row_title = ''Kickoff'', row_folders = [''A team''],
       row_created_at = ''2025-01-10T09:00:00Z'', row_insights_summary = ''Kickoff notes'',
       row_granola_summary = ''Kickoff'', row_themes_json = ''[]'', row_key_quotes_json = ''[]'',
       row_has_transcript = True, row_distance = Some (Finite 0) \<rparr>"

definition row_B :: doc_row where
  "row_B =
     \<lparr> row_id = ''doc-b'', row_title = ''Planning'', row_folders = [''B team''],
       row_created_at = ''2025-01-11T09:00:00Z'', row_insights_summary = ''Planning notes'',
       row_granola_summary = ''Planning'', row_themes_json = ''[]'', row_key_quotes_json = ''[]'',
       row_has_transcript = False, row_distance = Some (Finite 3) \<rparr>"

definition row_C :: doc_row where
  "row_C =
     \<lparr> row_id = ''doc-c'', row_title = ''Retro'', row_folders = [''Archive'', ''Old A Team notes''],
       row_created_at = ''2025-01-12T09:00:00Z'', row_insights_summary = ''Retro notes'',
       row_granola_summary = ''Retro'', row_themes_json = ''[]'', row_key_quotes_json = ''[]'',
       row_has_transcript = False, row_distance = Some (Finite 8) \<rparr>"

definition row_infinitely_far :: doc_row where
  "row_infinitely_far =
     \<lparr> row_id = ''doc-d'', row_title = ''Empty'', row_folders = [],
       row_created_at = ''2025-01-13T09:00:00Z'', row_insights_summary = ''No summary available'',
       row_granola_summary = [], row_themes_json = ''[]'', row_key_quotes_json = ''[]'',
       row_has_transcript = False, row_distance = Some PosInfinity \<rparr>"

definition row_without_distance :: doc_row where
  "row_without_distance =
     \<lparr> row_id = ''doc-e'', row_title = ''Listed'', row_folders = [],
       row_created_at = ''2025-01-14T09:00:00Z'', row_insights_summary = ''Listed notes'',
       row_granola_summary = ''Listed'', row_themes_json = ''[]'', row_key_quotes_json = ''[]'',
       row_has_transcript = False, row_distance = None \<rparr>"

text \<open>
  An embeddings service that fails twice with a connection error and then answers, and one
  that answers a batch with its items in reverse order, the item for the text at
  position \<open>n\<close> of the whole input carrying the vector \<open>[n]\<close>.
\<close>

definition flaky_embeddings :: embedding_service where
  "flaky_embeddings =
     (\<lambda>attempt req.
        if attempt < 3 then Inl (JsError ''Connection error.'')
        else Inr [\<lparr> ei_index = 0, ei_embedding = [1, 0] \<rparr>])"

text \<open>
  An embeddings service whose first call throws an error with the given message and
  whose later calls answer.
\<close>

definition failing_once :: "string \<Rightarrow> embedding_service" where
  "failing_once msg =
     (\<lambda>attempt req.
        if attempt = 1 then Inl (JsError msg)
        else Inr [\<lparr> ei_index = 0, ei_embedding = [1, 0] \<rparr>])"

definition reversing_embeddings :: embedding_service where
  "reversing_embeddings =
     (\<lambda>offset req.
        case er_input req of
          InputText t \<Rightarrow> Inl (JsError ''400 expected a batch'')
        | InputBatch ts \<Rightarrow>
            Inr (rev (map (\<lambda>k. \<lparr> ei_index = k, ei_embedding = [real (offset + k)] \<rparr>)
                          [0..<length ts])))"

text \<open>
  One exported directory, an extractor that returns one theme and one quote, and an
  embedder that returns a fixed vector.
\<close>

definition example_dir :: doc_dir where
  "example_dir =
     \<lparr> dd_name = ''Pricing call'',
       dd_document = Some \<lparr> gd_id = ''doc-1'', gd_title = Some ''Pricing call'',
                            gd_created_at = ''2025-01-10T09:00:00Z'', gd_updated_at = None \<rparr>,
       dd_notes = ''Discussed pricing concerns.'',
       dd_transcript = ''[ME] Let us talk about pricing.'',
       dd_has_transcript = True,
       dd_folders = [] \<rparr>"

definition example_insights :: ExtractedInsights where
  "example_insights =
     \<lparr> insights_summary = JStr ''Pricing is a concern.'',
       themes = [\<lparr> th_spread = [(''name'', JStr ''pricing''), (''description'', JStr ''Cost'')],
                   th_evidence = [\<lparr> ev_text = JStr ''Too expensive'', ev_speaker = Participant \<rparr>] \<rparr>],
       key_quotes = [\<lparr> q_text = JStr ''Too expensive'', q_speaker = Participant,
                       q_timestamp = None, q_context = JStr ''Pricing'',
                       q_theme = Some (JStr ''pricing'') \<rparr>] \<rparr>"

definition example_extractor :: extractor where
  "example_extractor = (\<lambda>transcript notes title model. Inr example_insights)"

definition example_embedder :: embedder where
  "example_embedder = (\<lambda>text. Inr [1, 0])"

text \<open>
  What a run stores, by id: the ids of the documents, and for each chunk its id, its kind
  and the id of the document it refers to.
\<close>

definition stored_ids ::
    "js_error + index_state \<Rightarrow> js_error + string list \<times> (string \<times> chunk_kind \<times> string) list" where
  "stored_ids run =
     (case run of
        Inl e \<Rightarrow> Inl e
      | Inr st \<Rightarrow>
          Inr (map (\<lambda>d. idoc_id (fst d)) (indexedDocs st),
               map (\<lambda>c. (ck_id c, ck_type c, ck_document_id c)) (allChunks st)))"

section \<open>Properties of the vector store\<close>

lemma str_includes_sublist: "str_includes s sub = sublist sub s"
  by (induction s) (auto simp: sublist_Cons_right)

lemma searchDocuments_from_pool:
  "set (searchDocuments toLowerCase to_double (Some ranked) options)
     \<subseteq> doc_hit_of to_double ` set (table_search ranked (with_default 10 (opt_limit options)))"
  by (auto simp: searchDocuments_def Let_def)

lemma searchChunks_from_pool:
  "set (searchChunks to_double (Some ranked) options)
     \<subseteq> chunk_hit_of to_double
          ` set (table_search ranked (with_default 20 (copt_limit options) * 2))"
  by (auto simp: searchChunks_def Let_def dest: in_set_takeD)

lemma ascii_lower_examples:
  "ascii_lower ''a team'' = ''a team''"
  "ascii_lower ''A team'' = ''a team''"
  "ascii_lower ''B team'' = ''b team''"
  "ascii_lower ''Archive'' = ''archive''"
  "ascii_lower ''Old A Team notes'' = ''old a team notes''"
  by code_simp+

lemma exact_rounding_ieee: "ieee_rounding exact_rounding"
  by (simp add: ieee_rounding_def exact_rounding_def)

lemma ieee_rounding_facts:
  assumes "ieee_rounding to_double"
  shows "to_double 0 = Finite 0"
    and "to_double 1 = Finite 1"
    and "\<And>x y. x \<le> y \<Longrightarrow> js_le (to_double x) (to_double y)"
    and "\<And>x y. to_double x = Finite y \<Longrightarrow> to_double y = Finite y"
    and "\<And>x. 0 \<le> x \<Longrightarrow> to_double x = Finite x \<Longrightarrow> to_double (1 + x) \<noteq> PosInfinity"
    and "\<And>y. 1 \<le> y \<Longrightarrow> to_double y = Finite y \<Longrightarrow> to_double (1 / y) \<noteq> Finite 0"
  using assms unfolding ieee_rounding_def by blast+

text \<open>The sum \<open>1 + d\<close> for a double \<open>d\<close> that is not negative: a double that is at least 1.\<close>

lemma one_plus_double:
  assumes r: "ieee_rounding to_double" and d: "0 \<le> d" "to_double d = Finite d"
  shows "\<exists>y. to_double (1 + d) = Finite y \<and> 1 \<le> y \<and> to_double y = Finite y"
proof -
  note f = ieee_rounding_facts [OF r]
  have "1 \<le> 1 + d" using d(1) by simp
  then have "js_le (to_double 1) (to_double (1 + d))" by (rule f(3))
  then have le: "js_le (Finite 1) (to_double (1 + d))" by (simp only: f(2))
  have "to_double (1 + d) \<noteq> PosInfinity" using d by (rule f(5))
  with le obtain y where y: "to_double (1 + d) = Finite y" "1 \<le> y"
    by (cases "to_double (1 + d)") simp_all
  from y(1) have "to_double y = Finite y" by (rule f(4))
  with y show ?thesis by blast
qed

text \<open>The quotient \<open>1 / y\<close> for a double \<open>y\<close> that is at least 1: a double in \<open>(0, 1]\<close>.\<close>

lemma one_over_double:
  assumes r: "ieee_rounding to_double" and y: "1 \<le> y" "to_double y = Finite y"
  shows "\<exists>s. to_double (1 / y) = Finite s \<and> 0 < s \<and> s \<le> 1"
proof -
  note f = ieee_rounding_facts [OF r]
  from y(1) have q: "0 \<le> 1 / y" "1 / y \<le> 1" by simp_all
  from q(1) have "js_le (to_double 0) (to_double (1 / y))" by (rule f(3))
  then have lo: "js_le (Finite 0) (to_double (1 / y))" by (simp only: f(1))
  from q(2) have "js_le (to_double (1 / y)) (to_double 1)" by (rule f(3))
  then have hi: "js_le (to_double (1 / y)) (Finite 1)" by (simp only: f(2))
  from lo hi obtain s where s: "to_double (1 / y) = Finite s" "0 \<le> s" "s \<le> 1"
    by (cases "to_double (1 / y)") simp_all
  have "to_double (1 / y) \<noteq> Finite 0" using y by (rule f(6))
  with s have "0 < s" by (cases "s = 0") simp_all
  with s show ?thesis by blast
qed

lemma similarity_of_double:
  assumes r: "ieee_rounding to_double" and d: "0 \<le> d" "to_double d = Finite d"
  shows "\<exists>y s. to_double (1 + d) = Finite y \<and> 1 \<le> y \<and> to_double (1 / y) = Finite s
           \<and> similarity to_double (Some (Finite d)) = Finite s \<and> 0 < s \<and> s \<le> 1
           \<and> (d = 0 \<longrightarrow> s = 1)"
proof -
  from one_plus_double [OF r d] obtain y where
    y: "to_double (1 + d) = Finite y" "1 \<le> y" "to_double y = Finite y"
    by blast
  from one_over_double [OF r y(2,3)] obtain s where
    s: "to_double (1 / y) = Finite s" "0 < s" "s \<le> 1"
    by blast
  from y(1,2) s(1) have sim: "similarity to_double (Some (Finite d)) = Finite s"
    by (simp add: similarity_def)
  have "s = 1" if "d = 0"
  proof -
    from that y(1) have "y = 1" by (simp add: ieee_rounding_facts(2) [OF r])
    with s(1) show ?thesis by (simp add: ieee_rounding_facts(2) [OF r])
  qed
  with y s sim show ?thesis by blast
qed

lemma similarity_antimono:
  assumes r: "ieee_rounding to_double"
    and d1: "0 \<le> d1" "to_double d1 = Finite d1"
    and d2: "to_double d2 = Finite d2"
    and lt: "d1 < d2"
  shows "\<exists>s1 s2. similarity to_double (Some (Finite d1)) = Finite s1
           \<and> similarity to_double (Some (Finite d2)) = Finite s2 \<and> s2 \<le> s1"
proof -
  from lt d1(1) have d2': "0 \<le> d2" by simp
  from similarity_of_double [OF r d1] obtain y1 s1 where
    1: "to_double (1 + d1) = Finite y1" "1 \<le> y1" "to_double (1 / y1) = Finite s1"
       "similarity to_double (Some (Finite d1)) = Finite s1"
    by blast
  from similarity_of_double [OF r d2' d2] obtain y2 s2 where
    2: "to_double (1 + d2) = Finite y2" "1 \<le> y2" "to_double (1 / y2) = Finite s2"
       "similarity to_double (Some (Finite d2)) = Finite s2"
    by blast
  from lt have "1 + d1 \<le> 1 + d2" by simp
  then have "js_le (to_double (1 + d1)) (to_double (1 + d2))"
    by (rule ieee_rounding_facts(3) [OF r])
  with 1(1) 2(1) have "y1 \<le> y2" by simp
  with 1(2) have "1 / y2 \<le> 1 / y1" by (simp add: frac_le)
  then have "js_le (to_double (1 / y2)) (to_double (1 / y1))"
    by (rule ieee_rounding_facts(3) [OF r])
  with 1(3) 2(3) have "s2 \<le> s1" by simp
  with 1(4) 2(4) show ?thesis by blast
qed

text \<open>
  Claim C3, as stated, fails: a returned score need not lie in \<open>(0, 1]\<close>. A row at the
  distance \<open>Infinity\<close> gets the score 0, and so does a row without \<open>_distance\<close>, by the
  code's own test for \<open>undefined\<close>.
\<close>

theorem search_score_zero:
  "map hit_score
     (searchDocuments ascii_lower exact_rounding (Some [row_infinitely_far, row_without_distance])
        \<lparr> opt_limit = None, opt_folder = None \<rparr>)
     = [Finite 0, Finite 0]"
  by (simp add: searchDocuments_def table_search_def folder_matches_def with_default_def
        doc_hit_of_def similarity_def row_infinitely_far_def row_without_distance_def)

text \<open>
  Claim C3, amended. Every row that \<open>searchDocuments\<close> or \<open>searchChunks\<close> returns is made from
  a row of the table. When that row's distance is a double \<open>d \<ge> 0\<close>, its score is the
  rounded quotient of 1 by the rounded sum \<open>1 + d\<close>: it lies in \<open>(0, 1]\<close>, it is exactly 1
  at distance 0, and of two such rows the closer one never has the lower score. A row at
  the distance \<open>Infinity\<close> and a row without a distance get the score 0. The rounding is any
  one with the properties of \<open>ieee_rounding\<close>.
\<close>

theorem search_score_similarity:
  assumes "ieee_rounding to_double"
  shows
    "(\<forall>hit \<in> set (searchDocuments toLowerCase to_double (Some ranked) dopts).
        \<exists>row \<in> set ranked. hit = doc_hit_of to_double row
          \<and> (row_distance row = None \<or> row_distance row = Some PosInfinity
                \<longrightarrow> hit_score hit = Finite 0)
          \<and> (\<forall>d. row_distance row = Some (Finite d) \<and> 0 \<le> d \<and> to_double d = Finite d \<longrightarrow>
                (\<exists>y s. to_double (1 + d) = Finite y \<and> to_double (1 / y) = Finite s
                       \<and> hit_score hit = Finite s \<and> 0 < s \<and> s \<le> 1 \<and> (d = 0 \<longrightarrow> s = 1))))
     \<and> (\<forall>hit \<in> set (searchChunks to_double (Some cranked) copts).
        \<exists>row \<in> set cranked. hit = chunk_hit_of to_double row
          \<and> (crow_distance row = None \<or> crow_distance row = Some PosInfinity
                \<longrightarrow> chit_score hit = Finite 0)
          \<and> (\<forall>d. crow_distance row = Some (Finite d) \<and> 0 \<le> d \<and> to_double d = Finite d \<longrightarrow>
                (\<exists>y s. to_double (1 + d) = Finite y \<and> to_double (1 / y) = Finite s
                       \<and> chit_score hit = Finite s \<and> 0 < s \<and> s \<le> 1 \<and> (d = 0 \<longrightarrow> s = 1))))
     \<and> (\<forall>r1 r2 d1 d2.
          row_distance r1 = Some (Finite d1) \<and> row_distance r2 = Some (Finite d2)
          \<and> to_double d1 = Finite d1 \<and> to_double d2 = Finite d2 \<and> 0 \<le> d1 \<and> d1 < d2
          \<longrightarrow> (\<exists>s1 s2. hit_score (doc_hit_of to_double r1) = Finite s1
                       \<and> hit_score (doc_hit_of to_double r2) = Finite s2 \<and> s2 \<le> s1))
     \<and> (\<forall>r1 r2 d1 d2.
          crow_distance r1 = Some (Finite d1) \<and> crow_distance r2 = Some (Finite d2)
          \<and> to_double d1 = Finite d1 \<and> to_double d2 = Finite d2 \<and> 0 \<le> d1 \<and> d1 < d2
          \<longrightarrow> (\<exists>s1 s2. chit_score (chunk_hit_of to_double r1) = Finite s1
                       \<and> chit_score (chunk_hit_of to_double r2) = Finite s2 \<and> s2 \<le> s1))"
proof (intro conjI ballI allI impI)
  fix hit assume "hit \<in> set (searchDocuments toLowerCase to_double (Some ranked) dopts)"
  with searchDocuments_from_pool [of toLowerCase to_double ranked dopts] obtain row
    where row: "row \<in> set ranked" "hit = doc_hit_of to_double row"
    by (auto simp: table_search_def dest: in_set_takeD)
  have zero: "row_distance row = None \<or> row_distance row = Some PosInfinity
                \<longrightarrow> hit_score hit = Finite 0"
    using row(2) by (auto simp: doc_hit_of_def similarity_def)
  have fin: "\<forall>d. row_distance row = Some (Finite d) \<and> 0 \<le> d \<and> to_double d = Finite d \<longrightarrow>
                (\<exists>y s. to_double (1 + d) = Finite y \<and> to_double (1 / y) = Finite s
                       \<and> hit_score hit = Finite s \<and> 0 < s \<and> s \<le> 1 \<and> (d = 0 \<longrightarrow> s = 1))"
  proof (intro allI impI)
    fix d assume d: "row_distance row = Some (Finite d) \<and> 0 \<le> d \<and> to_double d = Finite d"
    then have "0 \<le> d" "to_double d = Finite d" by simp_all
    from similarity_of_double [OF assms this] d row(2)
    show "\<exists>y s. to_double (1 + d) = Finite y \<and> to_double (1 / y) = Finite s
                       \<and> hit_score hit = Finite s \<and> 0 < s \<and> s \<le> 1 \<and> (d = 0 \<longrightarrow> s = 1)"
      by (auto simp: doc_hit_of_def)
  qed
  from row zero fin show "\<exists>row \<in> set ranked. hit = doc_hit_of to_double row
          \<and> (row_distance row = None \<or> row_distance row = Some PosInfinity
                \<longrightarrow> hit_score hit = Finite 0)
          \<and> (\<forall>d. row_distance row = Some (Finite d) \<and> 0 \<le> d \<and> to_double d = Finite d \<longrightarrow>
                (\<exists>y s. to_double (1 + d) = Finite y \<and> to_double (1 / y) = Finite s
                       \<and> hit_score hit = Finite s \<and> 0 < s \<and> s \<le> 1 \<and> (d = 0 \<longrightarrow> s = 1)))"
    by blast
next
  fix hit assume "hit \<in> set (searchChunks to_double (Some cranked) copts)"
  with searchChunks_from_pool [of to_double cranked copts] obtain row
    where row: "row \<in> set cranked" "hit = chunk_hit_of to_double row"
    by (auto simp: table_search_def dest: in_set_takeD)
  have zero: "crow_distance row = None \<or> crow_distance row = Some PosInfinity
                \<longrightarrow> chit_score hit = Finite 0"
    using row(2) by (auto simp: chunk_hit_of_def similarity_def)
  have fin: "\<forall>d. crow_distance row = Some (Finite d) \<and> 0 \<le> d \<and> to_double d = Finite d \<longrightarrow>
                (\<exists>y s. to_double (1 + d) = Finite y \<and> to_double (1 / y) = Finite s
                       \<and> chit_score hit = Finite s \<and> 0 < s \<and> s \<le> 1 \<and> (d = 0 \<longrightarrow> s = 1))"
  proof (intro allI impI)
    fix d assume d: "crow_distance row = Some (Finite d) \<and> 0 \<le> d \<and> to_double d = Finite d"
    then have "0 \<le> d" "to_double d = Finite d" by simp_all
    from similarity_of_double [OF assms this] d row(2)
    show "\<exists>y s. to_double (1 + d) = Finite y \<and> to_double (1 / y) = Finite s
                       \<and> chit_score hit = Finite s \<and> 0 < s \<and> s \<le> 1 \<and> (d = 0 \<longrightarrow> s = 1)"
      by (auto simp: chunk_hit_of_def)
  qed
  from row zero fin show "\<exists>row \<in> set cranked. hit = chunk_hit_of to_double row
          \<and> (crow_distance row = None \<or> crow_distance row = Some PosInfinity
                \<longrightarrow> chit_score hit = Finite 0)
          \<and> (\<forall>d. crow_distance row = Some (Finite d) \<and> 0 \<le> d \<and> to_double d = Finite d \<longrightarrow>
                (\<exists>y s. to_double (1 + d) = Finite y \<and> to_double (1 / y) = Finite s
                       \<and> chit_score hit = Finite s \<and> 0 < s \<and> s \<le> 1 \<and> (d = 0 \<longrightarrow> s = 1)))"
    by blast
next
  fix r1 r2 :: doc_row and d1 d2
  assume h: "row_distance r1 = Some (Finite d1) \<and> row_distance r2 = Some (Finite d2)
          \<and> to_double d1 = Finite d1 \<and> to_double d2 = Finite d2 \<and> 0 \<le> d1 \<and> d1 < d2"
  then have "0 \<le> d1" "to_double d1 = Finite d1" "to_double d2 = Finite d2" "d1 < d2"
    by simp_all
  from similarity_antimono [OF assms this] h
  show "\<exists>s1 s2. hit_score (doc_hit_of to_double r1) = Finite s1
                       \<and> hit_score (doc_hit_of to_double r2) = Finite s2 \<and> s2 \<le> s1"
    by (simp add: doc_hit_of_def)
next
  fix r1 r2 :: chunk_row and d1 d2
  assume h: "crow_distance r1 = Some (Finite d1) \<and> crow_distance r2 = Some (Finite d2)
          \<and> to_double d1 = Finite d1 \<and> to_double d2 = Finite d2 \<and> 0 \<le> d1 \<and> d1 < d2"
  then have "0 \<le> d1" "to_double d1 = Finite d1" "to_double d2 = Finite d2" "d1 < d2"
    by simp_all
  from similarity_antimono [OF assms this] h
  show "\<exists>s1 s2. chit_score (chunk_hit_of to_double r1) = Finite s1
                       \<and> chit_score (chunk_hit_of to_double r2) = Finite s2 \<and> s2 \<le> s1"
    by (simp add: chunk_hit_of_def)
qed

theorem search_score_similarity_witness:
  "ieee_rounding exact_rounding
   \<and> searchDocuments ascii_lower exact_rounding (Some [row_A, row_B])
       \<lparr> opt_limit = None, opt_folder = None \<rparr>
     = [doc_hit_of exact_rounding row_A, doc_hit_of exact_rounding row_B]
   \<and> row_distance row_A = Some (Finite 0) \<and> exact_rounding 0 = Finite 0
   \<and> hit_score (doc_hit_of exact_rounding row_A) = Finite 1
   \<and> row_distance row_B = Some (Finite 3) \<and> exact_rounding 3 = Finite 3
   \<and> hit_score (doc_hit_of exact_rounding row_B) = Finite (1 / 4)"
  using search_score_similarity [OF exact_rounding_ieee, of ascii_lower "[row_A, row_B]"
      "\<lparr> opt_limit = None, opt_folder = None \<rparr>"
      "[]" "\<lparr> copt_limit = None, copt_type = None, copt_themeName = None \<rparr>"]
    exact_rounding_ieee
  by (simp add: searchDocuments_def table_search_def folder_matches_def with_default_def
        doc_hit_of_def similarity_def row_A_def row_B_def exact_rounding_def)

text \<open>
  Claim C7. With a folder filter, \<open>searchDocuments\<close> first retrieves the at most \<open>limit\<close>
  nearest rows and then keeps those having a folder name that contains the filter, both
  lower-cased by the platform's \<open>toLowerCase\<close>, whatever that function is. So every returned
  document has such a folder, at most \<open>limit\<close> documents are returned, and fewer than
  \<open>limit\<close> may be returned although the table holds more matching documents than that:
  with the three example rows, limit 2 and filter \<open>a team\<close>, one document is returned while
  two of the table's rows match.
\<close>

theorem folder_filter_after_retrieval:
  "searchDocuments toLowerCase to_double (Some ranked) options
     = map (doc_hit_of to_double)
         (filter (folder_matches toLowerCase (opt_folder options))
           (table_search ranked (with_default 10 (opt_limit options))))
   \<and> length (table_search ranked (with_default 10 (opt_limit options)))
         \<le> with_default 10 (opt_limit options)
   \<and> length (searchDocuments toLowerCase to_double tbl options)
         \<le> with_default 10 (opt_limit options)
   \<and> (\<forall>f. opt_folder options = Some f \<and> f \<noteq> [] \<longrightarrow>
         (\<forall>hit \<in> set (searchDocuments toLowerCase to_double tbl options).
            \<exists>g \<in> set (hit_folders hit). sublist (toLowerCase f) (toLowerCase g)))
   \<and> length (searchDocuments ascii_lower to_double (Some [row_A, row_B, row_C])
                \<lparr> opt_limit = Some 2, opt_folder = Some ''a team'' \<rparr>) < 2
   \<and> 2 \<le> length (filter (folder_matches ascii_lower (Some ''a team'')) [row_A, row_B, row_C])"
proof (intro conjI allI impI ballI)
  show "searchDocuments toLowerCase to_double (Some ranked) options
     = map (doc_hit_of to_double)
         (filter (folder_matches toLowerCase (opt_folder options))
           (table_search ranked (with_default 10 (opt_limit options))))"
    by (simp add: searchDocuments_def Let_def)
  show "length (table_search ranked (with_default 10 (opt_limit options)))
         \<le> with_default 10 (opt_limit options)"
    by (simp add: table_search_def)
  show "length (searchDocuments toLowerCase to_double tbl options)
          \<le> with_default 10 (opt_limit options)"
  proof (cases tbl)
    case None
    then show ?thesis by (simp add: searchDocuments_def)
  next
    case (Some ranked')
    have "length (filter (folder_matches toLowerCase (opt_folder options))
            (table_search ranked' (with_default 10 (opt_limit options))))
          \<le> length (table_search ranked' (with_default 10 (opt_limit options)))"
      by (rule length_filter_le)
    also have "\<dots> \<le> with_default 10 (opt_limit options)"
      by (simp add: table_search_def)
    finally show ?thesis using Some by (simp add: searchDocuments_def Let_def)
  qed
next
  fix f hit
  assume f: "opt_folder options = Some f \<and> f \<noteq> []"
    and hit: "hit \<in> set (searchDocuments toLowerCase to_double tbl options)"
  from hit obtain ranked' where t: "tbl = Some ranked'"
    by (cases tbl) (auto simp: searchDocuments_def)
  with hit obtain row where
    r: "hit = doc_hit_of to_double row" "folder_matches toLowerCase (Some f) row"
    using f by (auto simp: searchDocuments_def Let_def)
  from r(2) f obtain g where "g \<in> set (row_folders row)"
      "str_includes (toLowerCase g) (toLowerCase f)"
    by (auto simp: folder_matches_def list_ex_iff)
  with r(1) show "\<exists>g \<in> set (hit_folders hit). sublist (toLowerCase f) (toLowerCase g)"
    by (auto simp: doc_hit_of_def str_includes_sublist)
next
  show "length (searchDocuments ascii_lower to_double (Some [row_A, row_B, row_C])
                \<lparr> opt_limit = Some 2, opt_folder = Some ''a team'' \<rparr>) < 2"
    by (simp add: searchDocuments_def table_search_def folder_matches_def with_default_def
          row_A_def row_B_def ascii_lower_examples)
  show "2 \<le> length (filter (folder_matches ascii_lower (Some ''a team'')) [row_A, row_B, row_C])"
    by (simp add: folder_matches_def row_A_def row_B_def row_C_def ascii_lower_examples)
qed

theorem folder_filter_after_retrieval_witness:
  "opt_folder \<lparr> opt_limit = None, opt_folder = Some ''a team'' \<rparr> = Some ''a team''
   \<and> searchDocuments ascii_lower exact_rounding (Some [row_A, row_B])
        \<lparr> opt_limit = None, opt_folder = Some ''a team'' \<rparr>
       = [doc_hit_of exact_rounding row_A]
   \<and> hit_folders (doc_hit_of exact_rounding row_A) = [''A team'']
   \<and> sublist (ascii_lower ''a team'') (ascii_lower ''A team'')"
proof -
  have s: "searchDocuments ascii_lower exact_rounding (Some [row_A, row_B])
        \<lparr> opt_limit = None, opt_folder = Some ''a team'' \<rparr>
       = [doc_hit_of exact_rounding row_A]"
    by (simp add: searchDocuments_def table_search_def folder_matches_def with_default_def
          row_A_def row_B_def ascii_lower_examples)
  have f: "hit_folders (doc_hit_of exact_rounding row_A) = [''A team'']"
    by (simp add: doc_hit_of_def row_A_def)
  from folder_filter_after_retrieval [of ascii_lower exact_rounding "[row_A, row_B]"
      "\<lparr> opt_limit = None, opt_folder = Some ''a team'' \<rparr>" "Some [row_A, row_B]"]
  have "\<forall>hit \<in> set (searchDocuments ascii_lower exact_rounding (Some [row_A, row_B])
                      \<lparr> opt_limit = None, opt_folder = Some ''a team'' \<rparr>).
          \<exists>g \<in> set (hit_folders hit). sublist (ascii_lower ''a team'') (ascii_lower g)"
    by simp
  with s f show ?thesis by simp
qed

section \<open>Properties of the insight extractor\<close>

lemma and_then_Inr_iff: "and_then m f = Inr y \<longleftrightarrow> (\<exists>x. m = Inr x \<and> f x = Inr y)"
  by (cases m) (simp_all add: and_then_def)

lemma and_then_Inr [simp]: "and_then (Inr x) f = f x"
  by (simp add: and_then_def)

lemma and_then_Inl [simp]: "and_then (Inl e) f = Inl e"
  by (simp add: and_then_def)

lemma map_throwing_Inr:
  "map_throwing f xs = Inr ys \<Longrightarrow> list_all2 (\<lambda>x y. f x = Inr y) xs ys"
  by (induction xs arbitrary: ys) (auto split: sum.splits)

lemma filter_throwing_Inr:
  "filter_throwing p xs = Inr ys \<Longrightarrow> ys = filter (\<lambda>x. p x = Inr True) xs"
  by (induction xs arbitrary: ys) (auto split: sum.splits)

lemma getThemeNames_eq:
  "getThemeNames = [''pain-points'', ''feature-requests'', ''positive-feedback'', ''pricing'',
     ''competition'', ''workflow'', ''decisions'', ''questions'']"
  by (simp add: getThemeNames_def THEMES_def)

lemma extract_loop_unrolled:
  "extract_loop body (Suc 0) =
     (case body (Suc 0) of
        Inr r \<Rightarrow> Some r
      | Inl e1 \<Rightarrow>
          if isRetryable e1 then
            (case body 2 of
               Inr r \<Rightarrow> Some r
             | Inl e2 \<Rightarrow>
                 if isRetryable e2 then (case body 3 of Inr r \<Rightarrow> Some r | Inl e3 \<Rightarrow> None)
                 else None)
          else None)"
proof -
  have 3: "extract_loop body 3 = (case body 3 of Inr r \<Rightarrow> Some r | Inl e3 \<Rightarrow> None)"
    by (subst extract_loop.simps) (simp add: maxRetries_def split: sum.splits)
  have 2: "extract_loop body 2 =
      (case body 2 of Inr r \<Rightarrow> Some r | Inl e2 \<Rightarrow> if isRetryable e2 then extract_loop body 3 else None)"
    by (subst extract_loop.simps) (simp add: maxRetries_def numeral_3_eq_3 numeral_2_eq_2 split: sum.splits)
  have 1: "extract_loop body (Suc 0) =
      (case body (Suc 0) of Inr r \<Rightarrow> Some r | Inl e1 \<Rightarrow> if isRetryable e1 then extract_loop body 2 else None)"
    by (subst extract_loop.simps) (simp add: maxRetries_def numeral_2_eq_2 split: sum.splits)
  show ?thesis unfolding 1 2 3 ..
qed

lemma minimal_insights_eq:
  "minimal_insights notes =
     \<lparr> insights_summary = JStr (if notes = [] then ''Extraction failed'' else take 200 notes),
       themes = [], key_quotes = [] \<rparr>"
  by (simp add: minimal_insights_def)

text \<open>
  Claim C4, as stated, fails: \<open>getOpenAI\<close> is called before the \<open>try\<close>, so without an API
  key (and with no client constructed yet) \<open>extractInsights\<close> throws the configuration error
  to its caller.
\<close>

theorem extractInsights_throws_without_api_key:
  "extractInsights unconfigured_env example_runtime (answering_service ''A'')
       ''transcript'' ''notes'' ''title'' None
     = Inl (JsError ''OPENAI_API_KEY environment variable is required'')"
  by (simp add: extractInsights_def getOpenAI_def unconfigured_env_def)

text \<open>
  Claim C4, amended. When the client is available (\<open>getOpenAI\<close> succeeds),
  \<open>extractInsights\<close> returns a result for every input and every behaviour of the service.
  If the attempts made all fail, the last one with an error that is not transient or as
  the third attempt, the result is the minimal one: the first 200 characters of the notes
  (or \<open>Extraction failed\<close> when the notes are empty), no themes and no key quotes.
\<close>

theorem extractInsights_degrades_when_configured:
  assumes "getOpenAI env = Inr env'"
  shows "(\<exists>r. extractInsights env rt create transcript notes title model = Inr r)
    \<and> (\<forall>k. 1 \<le> k \<and> k \<le> 3
          \<and> (\<forall>j. 1 \<le> j \<and> j < k \<longrightarrow>
                (\<exists>e. extract_attempt rt create (chat_request_for model title notes transcript) j = Inl e
                      \<and> isRetryable e))
          \<and> (\<exists>e. extract_attempt rt create (chat_request_for model title notes transcript) k = Inl e
                  \<and> (\<not> isRetryable e \<or> k = 3))
        \<longrightarrow> extractInsights env rt create transcript notes title model = Inr (minimal_insights notes))
    \<and> minimal_insights notes =
        \<lparr> insights_summary = JStr (if notes = [] then ''Extraction failed'' else take 200 notes),
          themes = [], key_quotes = [] \<rparr>"
proof (intro conjI allI impI)
  show "\<exists>r. extractInsights env rt create transcript notes title model = Inr r"
    using assms by (simp add: extractInsights_def split: option.splits)
next
  fix k
  let ?body = "extract_attempt rt create (chat_request_for model title notes transcript)"
  assume h: "1 \<le> k \<and> k \<le> 3
          \<and> (\<forall>j. 1 \<le> j \<and> j < k \<longrightarrow> (\<exists>e. ?body j = Inl e \<and> isRetryable e))
          \<and> (\<exists>e. ?body k = Inl e \<and> (\<not> isRetryable e \<or> k = 3))"
  then consider "k = 1" | "k = 2" | "k = 3" by linarith
  then have "extract_loop ?body 1 = None"
  proof cases
    case 1
    with h show ?thesis by (auto simp: extract_loop_unrolled)
  next
    case 2
    with h have "\<exists>e. ?body 1 = Inl e \<and> isRetryable e" by simp
    moreover from 2 h have "\<exists>e. ?body 2 = Inl e \<and> \<not> isRetryable e" by simp
    ultimately show ?thesis by (auto simp: extract_loop_unrolled)
  next
    case 3
    with h have "\<exists>e. ?body 1 = Inl e \<and> isRetryable e" by simp
    moreover from 3 h have "\<exists>e. ?body 2 = Inl e \<and> isRetryable e" by simp
    moreover from 3 h have "\<exists>e. ?body 3 = Inl e" by auto
    ultimately show ?thesis by (auto simp: extract_loop_unrolled)
  qed
  then show "extractInsights env rt create transcript notes title model = Inr (minimal_insights notes)"
    using assms by (simp add: extractInsights_def)
next
  show "minimal_insights notes =
        \<lparr> insights_summary = JStr (if notes = [] then ''Extraction failed'' else take 200 notes),
          themes = [], key_quotes = [] \<rparr>"
    by (rule minimal_insights_eq)
qed

theorem extractInsights_degrades_when_configured_witness:
  "getOpenAI configured_env = Inr (configured_env \<lparr> openaiClient := True \<rparr>)
   \<and> extract_attempt example_runtime (failing_service ''read ECONNRESET'')
        (chat_request_for None ''title'' ''notes'' ''transcript'') 1 = Inl (JsError ''read ECONNRESET'')
   \<and> isRetryable (JsError ''read ECONNRESET'')
   \<and> extractInsights configured_env example_runtime (failing_service ''read ECONNRESET'')
        ''transcript'' ''notes'' ''title'' None
      = Inr \<lparr> insights_summary = JStr ''notes'', themes = [], key_quotes = [] \<rparr>"
proof -
  have env: "getOpenAI configured_env = Inr (configured_env \<lparr> openaiClient := True \<rparr>)"
    by (simp add: getOpenAI_def configured_env_def)
  have att: "\<And>j. extract_attempt example_runtime (failing_service ''read ECONNRESET'')
        (chat_request_for None ''title'' ''notes'' ''transcript'') j = Inl (JsError ''read ECONNRESET'')"
    by (simp add: extract_attempt_def failing_service_def)
  have r: "isRetryable (JsError ''read ECONNRESET'')"
    by (simp add: isRetryable_def)
  from extractInsights_degrades_when_configured [OF env, of example_runtime
      "failing_service ''read ECONNRESET''" "''transcript''" "''notes''" "''title''" None]
  have "extractInsights configured_env example_runtime (failing_service ''read ECONNRESET'')
        ''transcript'' ''notes'' ''title'' None = Inr (minimal_insights ''notes'')"
    using att r by auto
  then show ?thesis using env att r by (simp add: minimal_insights_def)
qed

text \<open>
  Claim C1 does not hold of the code. The themes filter tests \<open>t.evidence?.length > 0\<close> on
  the evidence as the model sent it, and the items with empty text are removed only
  afterwards: a theme whose only evidence item has an empty text is returned with an
  empty evidence list.
\<close>

theorem theme_with_only_empty_evidence_is_kept:
  "extractInsights configured_env example_runtime (answering_service ''A'')
       ''transcript'' ''notes'' ''title'' None
     = Inr \<lparr> insights_summary = JStr ''Pricing came up.'',
             themes = [\<lparr> th_spread = [(''name'', JStr ''pricing''),
                                      (''description'', JStr ''Cost was discussed'')],
                         th_evidence = [] \<rparr>],
             key_quotes = [] \<rparr>"
proof -
  have v: "validate_insights example_runtime answer_A =
     Inr \<lparr> insights_summary = JStr ''Pricing came up.'',
             themes = [\<lparr> th_spread = [(''name'', JStr ''pricing''),
                                      (''description'', JStr ''Cost was discussed'')],
                         th_evidence = [] \<rparr>],
             key_quotes = [] \<rparr>"
    by (simp add: validate_insights_def answer_A_def example_runtime_def or_default_def
      theme_kept_def clean_theme_def clean_evidence_def length_gt0_def js_get_opt_def getThemeNames_eq
      validateSpeaker_def)
  have a: "\<And>k. extract_attempt example_runtime (answering_service ''A'')
             (chat_request_for None ''title'' ''notes'' ''transcript'') k
           = validate_insights example_runtime answer_A"
    by (simp add: extract_attempt_def answering_service_def example_runtime_def)
  show ?thesis
    by (simp add: extractInsights_def getOpenAI_def configured_env_def extract_loop_unrolled a v)
qed

lemma list_all2_filter_both:
  assumes "list_all2 S xs ys"
    and "\<And>x y. S x y \<Longrightarrow> P x = Q y"
    and "\<And>x y. S x y \<Longrightarrow> Q y \<Longrightarrow> R x y"
  shows "list_all2 R (filter P xs) (filter Q ys)"
  using assms(1)
proof (induction rule: list_all2_induct)
  case Nil
  then show ?case by simp
next
  case (Cons x xs y ys)
  then show ?case using assms(2) [of x y] assms(3) [of x y] by auto
qed

lemma length_gt0_empty_string: "length_gt0 rt (JStr []) = Inr False"
  by (simp add: length_gt0_def)

lemma length_gt0_string: "length_gt0 rt (JStr s) = Inr (s \<noteq> [])"
  by (simp add: length_gt0_def)

lemma themeNames_includes_iff:
  "themeNames_includes v \<longleftrightarrow> (\<exists>n \<in> set getThemeNames. v = Some (JStr n))"
  by (induction v rule: themeNames_includes.induct) auto

lemma empty_not_theme_name: "[] \<notin> set getThemeNames"
  by (simp add: getThemeNames_eq)

lemma clean_quote_fields:
  assumes "clean_quote raw = Inr q"
  shows "\<exists>tx sp th. js_get (Some raw) ''text'' = Inr tx
           \<and> js_get (Some raw) ''speaker'' = Inr sp
           \<and> js_get (Some raw) ''theme'' = Inr th
           \<and> q_text q = or_default tx (JStr [])
           \<and> q_speaker q = validateSpeaker sp
           \<and> q_theme q = (if truthy th \<and> themeNames_includes th then th else None)"
  using assms by (auto simp: clean_quote_def and_then_Inr_iff)

lemma extract_loop_Some:
  "extract_loop body (Suc 0) = Some r \<Longrightarrow> \<exists>k. body k = Inr r"
  by (auto simp: extract_loop_unrolled split: sum.splits if_splits)

lemma extract_attempt_Inr:
  "extract_attempt rt create req k = Inr r \<Longrightarrow> \<exists>parsed. validate_insights rt parsed = Inr r"
  by (auto simp: extract_attempt_def and_then_Inr_iff Let_def split: if_splits)

lemma extractInsights_Inr:
  assumes "extractInsights env rt create transcript notes title model = Inr r"
  shows "r = minimal_insights notes \<or> (\<exists>parsed. validate_insights rt parsed = Inr r)"
proof -
  from assms obtain env' where "getOpenAI env = Inr env'"
    by (auto simp: extractInsights_def and_then_Inr_iff)
  with assms show ?thesis
    by (auto simp: extractInsights_def split: option.splits
        dest!: extract_loop_Some extract_attempt_Inr)
qed

lemma validate_key_quotes:
  assumes "validate_insights rt parsed = Inr r"
  shows "\<exists>kqs raws cleaned.
           js_get (Some parsed) ''key_quotes'' = Inr kqs \<and> or_default kqs (JArr []) = JArr raws
           \<and> list_all2 (\<lambda>raw q. clean_quote raw = Inr q) raws cleaned
           \<and> key_quotes r = filter (\<lambda>q. length_gt0 rt (q_text q) = Inr True) cleaned"
proof -
  from assms obtain kqs raws cleaned kept where
    k: "js_get (Some parsed) ''key_quotes'' = Inr kqs"
    and e: "js_elements ''(parsed.key_quotes || [])'' ''map'' (Some (or_default kqs (JArr []))) = Inr raws"
    and m: "map_throwing clean_quote raws = Inr cleaned"
    and f: "filter_throwing (\<lambda>q. length_gt0 rt (q_text q)) cleaned = Inr kept"
    and r: "key_quotes r = kept"
    unfolding validate_insights_def and_then_Inr_iff by auto
  from e have "or_default kqs (JArr []) = JArr raws"
    by (cases "or_default kqs (JArr [])") simp_all
  with k map_throwing_Inr [OF m] filter_throwing_Inr [OF f] r show ?thesis
    by blast
qed

lemma validate_answer_B:
  "validate_insights example_runtime answer_B =
     Inr \<lparr> insights_summary = JStr ''No insights extracted'',
           themes = [],
           key_quotes =
             [\<lparr> q_text = JStr ''Too expensive for us'', q_speaker = Participant,
                 q_timestamp = None, q_context = JStr ''Context not provided'',
                 q_theme = Some (JStr ''pricing'') \<rparr>,
              \<lparr> q_text = JStr ''We will follow up'', q_speaker = Me,
                 q_timestamp = None, q_context = JStr ''Context not provided'',
                 q_theme = None \<rparr>] \<rparr>"
  by (simp add: validate_insights_def answer_B_def example_runtime_def or_default_def
        or_undefined_def clean_quote_def length_gt0_def getThemeNames_eq validateSpeaker_def)


text \<open>
  Claim C8. The key quotes of a validated answer are, in order, the model's items whose
  text is present and non-empty; each keeps that text, has the speaker \<open>me\<close> when the
  model said \<open>me\<close> and \<open>participant\<close> in every other case (absent or invalid values
  included), and keeps its theme reference when it is a known theme id and has none
  otherwise. So every key quote \<open>extractInsights\<close> returns has a non-empty text, one of the
  two speakers, and a theme reference that is a known id or absent.
\<close>

theorem key_quotes_are_validated:
  "(validate_insights rt parsed = Inr r \<longrightarrow>
      (\<exists>kqs raws.
         js_get (Some parsed) ''key_quotes'' = Inr kqs \<and> or_default kqs (JArr []) = JArr raws
         \<and> list_all2
             (\<lambda>raw q.
                js_get (Some raw) ''text'' = Inr (Some (q_text q))
                \<and> q_speaker q =
                    (if js_get (Some raw) ''speaker'' = Inr (Some (JStr ''me'')) then Me
                     else Participant)
                \<and> q_theme q =
                    (case js_get (Some raw) ''theme'' of
                       Inr (Some (JStr n)) \<Rightarrow> if n \<in> set getThemeNames then Some (JStr n) else None
                     | _ \<Rightarrow> None))
             (filter
                (\<lambda>raw. case js_get (Some raw) ''text'' of
                         Inr (Some tx) \<Rightarrow> truthy (Some tx) \<and> length_gt0 rt tx = Inr True
                       | _ \<Rightarrow> False)
                raws)
             (key_quotes r)))
   \<and> (extractInsights env rt create transcript notes title model = Inr r' \<longrightarrow>
        (\<forall>q \<in> set (key_quotes r').
           length_gt0 rt (q_text q) = Inr True \<and> q_text q \<noteq> JStr []
           \<and> (q_speaker q = Me \<or> q_speaker q = Participant)
           \<and> (q_theme q = None \<or> (\<exists>n \<in> set getThemeNames. q_theme q = Some (JStr n)))))"
proof (intro conjI impI)
  assume v: "validate_insights rt parsed = Inr r"
  from validate_key_quotes [OF v] obtain kqs raws cleaned where
    k: "js_get (Some parsed) ''key_quotes'' = Inr kqs" "or_default kqs (JArr []) = JArr raws"
    and c: "list_all2 (\<lambda>raw q. clean_quote raw = Inr q) raws cleaned"
    and r: "key_quotes r = filter (\<lambda>q. length_gt0 rt (q_text q) = Inr True) cleaned"
    by blast
  let ?P = "\<lambda>raw. case js_get (Some raw) ''text'' of
                         Inr (Some tx) \<Rightarrow> truthy (Some tx) \<and> length_gt0 rt tx = Inr True
                       | _ \<Rightarrow> False"
  let ?R = "\<lambda>raw q.
                js_get (Some raw) ''text'' = Inr (Some (q_text q))
                \<and> q_speaker q =
                    (if js_get (Some raw) ''speaker'' = Inr (Some (JStr ''me'')) then Me
                     else Participant)
                \<and> q_theme q =
                    (case js_get (Some raw) ''theme'' of
                       Inr (Some (JStr n)) \<Rightarrow> if n \<in> set getThemeNames then Some (JStr n) else None
                     | _ \<Rightarrow> None)"
  have same: "?P raw = (length_gt0 rt (q_text q) = Inr True)" if "clean_quote raw = Inr q" for raw q
  proof -
    from clean_quote_fields [OF that] obtain tx where
      f: "js_get (Some raw) ''text'' = Inr tx" "q_text q = or_default tx (JStr [])"
      by blast
    show ?thesis
    proof (cases "truthy tx")
      case True
      then obtain x where "tx = Some x" by (cases tx) auto
      with True f show ?thesis by (simp add: or_default_def)
    next
      case False
      with f show ?thesis
        by (cases tx) (simp_all add: or_default_def length_gt0_empty_string)
    qed
  qed
  have rel: "?R raw q" if "clean_quote raw = Inr q" "length_gt0 rt (q_text q) = Inr True" for raw q
  proof -
    from clean_quote_fields [OF that(1)] obtain tx sp th where
      f: "js_get (Some raw) ''text'' = Inr tx" "js_get (Some raw) ''speaker'' = Inr sp"
         "js_get (Some raw) ''theme'' = Inr th" "q_text q = or_default tx (JStr [])"
         "q_speaker q = validateSpeaker sp"
         "q_theme q = (if truthy th \<and> themeNames_includes th then th else None)"
      by blast
    from that(2) f(4) have t: "truthy tx"
      by (auto simp: or_default_def length_gt0_empty_string split: if_splits)
    then have 1: "js_get (Some raw) ''text'' = Inr (Some (q_text q))"
      using f(1,4) by (cases tx) (auto simp: or_default_def)
    have 2: "q_speaker q = (if js_get (Some raw) ''speaker'' = Inr (Some (JStr ''me'')) then Me
                     else Participant)"
      using f(2,5) by (simp add: validateSpeaker_def)
    have 3: "q_theme q = (case js_get (Some raw) ''theme'' of
                       Inr (Some (JStr n)) \<Rightarrow> if n \<in> set getThemeNames then Some (JStr n) else None
                     | _ \<Rightarrow> None)"
      using f(3,6) empty_not_theme_name by (cases th rule: themeNames_includes.cases) auto
    from 1 2 3 show ?thesis by blast
  qed
  have "list_all2 ?R (filter ?P raws) (filter (\<lambda>q. length_gt0 rt (q_text q) = Inr True) cleaned)"
    using c same rel by (rule list_all2_filter_both)
  with k r show "\<exists>kqs raws.
         js_get (Some parsed) ''key_quotes'' = Inr kqs \<and> or_default kqs (JArr []) = JArr raws
         \<and> list_all2 ?R (filter ?P raws) (key_quotes r)"
    by auto
next
  assume e: "extractInsights env rt create transcript notes title model = Inr r'"
  show "\<forall>q \<in> set (key_quotes r').
           length_gt0 rt (q_text q) = Inr True \<and> q_text q \<noteq> JStr []
           \<and> (q_speaker q = Me \<or> q_speaker q = Participant)
           \<and> (q_theme q = None \<or> (\<exists>n \<in> set getThemeNames. q_theme q = Some (JStr n)))"
  proof
    fix q assume q: "q \<in> set (key_quotes r')"
    from extractInsights_Inr [OF e] q obtain parsed where v: "validate_insights rt parsed = Inr r'"
      by (auto simp: minimal_insights_def)
    from validate_key_quotes [OF v] obtain raws cleaned where
      c: "list_all2 (\<lambda>raw q. clean_quote raw = Inr q) raws cleaned"
      and r: "key_quotes r' = filter (\<lambda>q. length_gt0 rt (q_text q) = Inr True) cleaned"
      by blast
    from q r have l: "length_gt0 rt (q_text q) = Inr True" and "q \<in> set cleaned" by auto
    with c obtain raw where "clean_quote raw = Inr q"
      by (auto simp: list_all2_conv_all_nth in_set_conv_nth)
    from clean_quote_fields [OF this] obtain th where
      "q_theme q = (if truthy th \<and> themeNames_includes th then th else None)"
      by blast
    then have "q_theme q = None \<or> (\<exists>n \<in> set getThemeNames. q_theme q = Some (JStr n))"
      using themeNames_includes_iff [of th] by (cases "truthy th \<and> themeNames_includes th") auto
    moreover have "q_text q \<noteq> JStr []"
      using l by (auto simp: length_gt0_empty_string)
    moreover have "q_speaker q = Me \<or> q_speaker q = Participant"
      by (cases "q_speaker q") simp_all
    ultimately show "length_gt0 rt (q_text q) = Inr True \<and> q_text q \<noteq> JStr []
           \<and> (q_speaker q = Me \<or> q_speaker q = Participant)
           \<and> (q_theme q = None \<or> (\<exists>n \<in> set getThemeNames. q_theme q = Some (JStr n)))"
      using l by blast
  qed
qed

theorem key_quotes_are_validated_witness:
  "extractInsights configured_env example_runtime (answering_service ''B'')
       ''transcript'' ''notes'' ''title'' None
     = Inr \<lparr> insights_summary = JStr ''No insights extracted'',
             themes = [],
             key_quotes =
               [\<lparr> q_text = JStr ''Too expensive for us'', q_speaker = Participant,
                   q_timestamp = None, q_context = JStr ''Context not provided'',
                   q_theme = Some (JStr ''pricing'') \<rparr>,
                \<lparr> q_text = JStr ''We will follow up'', q_speaker = Me,
                   q_timestamp = None, q_context = JStr ''Context not provided'',
                   q_theme = None \<rparr>] \<rparr>
   \<and> length_gt0 example_runtime (JStr ''Too expensive for us'') = Inr True
   \<and> length_gt0 example_runtime (JStr ''We will follow up'') = Inr True
   \<and> ''pricing'' \<in> set getThemeNames"
proof -
  let ?r = "\<lparr> insights_summary = JStr ''No insights extracted'',
             themes = [],
             key_quotes =
               [\<lparr> q_text = JStr ''Too expensive for us'', q_speaker = Participant,
                   q_timestamp = None, q_context = JStr ''Context not provided'',
                   q_theme = Some (JStr ''pricing'') \<rparr>,
                \<lparr> q_text = JStr ''We will follow up'', q_speaker = Me,
                   q_timestamp = None, q_context = JStr ''Context not provided'',
                   q_theme = None \<rparr>] \<rparr>"
  have a: "\<And>k. extract_attempt example_runtime (answering_service ''B'')
             (chat_request_for None ''title'' ''notes'' ''transcript'') k
           = validate_insights example_runtime answer_B"
    by (simp add: extract_attempt_def answering_service_def example_runtime_def)
  have e: "extractInsights configured_env example_runtime (answering_service ''B'')
       ''transcript'' ''notes'' ''title'' None = Inr ?r"
    by (simp add: extractInsights_def getOpenAI_def configured_env_def extract_loop_unrolled a
          validate_answer_B)
  from key_quotes_are_validated [of example_runtime answer_B ?r configured_env
      "answering_service ''B''" "''transcript''" "''notes''" "''title''" None ?r] e
  have "\<forall>q \<in> set (key_quotes ?r).
           length_gt0 example_runtime (q_text q) = Inr True \<and> q_text q \<noteq> JStr []
           \<and> (q_speaker q = Me \<or> q_speaker q = Participant)
           \<and> (q_theme q = None \<or> (\<exists>n \<in> set getThemeNames. q_theme q = Some (JStr n)))"
    by blast
  with e show ?thesis by simp
qed

text \<open>
  What does hold of the themes \<open>extractInsights\<close> returns: the name of each is a known theme
  id, and every evidence item that is kept has a non-empty text.
\<close>

lemma list_all2_right_member:
  "list_all2 P xs ys \<Longrightarrow> y \<in> set ys \<Longrightarrow> \<exists>x \<in> set xs. P x y"
  by (induction rule: list_all2_induct) auto

lemma map_of_filter_other_key:
  "k \<noteq> k' \<Longrightarrow> map_of (filter (\<lambda>kv. fst kv \<noteq> k') kvs) k = map_of kvs k"
  by (induction kvs) auto

lemma theme_kept_object:
  assumes "theme_kept rt t = Inr True"
  shows "\<exists>kvs n. t = JObj kvs \<and> map_of kvs ''name'' = Some (JStr n) \<and> n \<in> set getThemeNames"
proof -
  from assms obtain name where n: "js_get (Some t) ''name'' = Inr name" "truthy name"
      "themeNames_includes name"
    by (auto simp: theme_kept_def and_then_Inr_iff split: if_splits)
  from n(3) obtain s where s: "name = Some (JStr s)" "s \<in> set getThemeNames"
    by (auto simp: themeNames_includes_iff)
  with n(1) show ?thesis
    by (cases t) (auto split: if_splits)
qed

lemma clean_theme_fields:
  assumes "clean_theme rt t = Inr th"
  shows "th_spread th = filter (\<lambda>kv. fst kv \<noteq> ''evidence'') (own_properties t)
         \<and> (\<forall>e \<in> set (th_evidence th). length_gt0 rt (ev_text e) = Inr True)"
proof -
  from assms obtain cleaned kept where
    f: "filter_throwing (\<lambda>e. length_gt0 rt (ev_text e)) cleaned = Inr kept"
    and t: "th = \<lparr> th_spread = filter (\<lambda>kv. fst kv \<noteq> ''evidence'') (own_properties t),
                   th_evidence = kept \<rparr>"
    unfolding clean_theme_def and_then_Inr_iff by auto
  from filter_throwing_Inr [OF f] t show ?thesis by simp
qed

lemma validated_themes_are_cleaned:
  assumes "validate_insights rt parsed = Inr r" and "th \<in> set (themes r)"
  shows "(\<exists>n \<in> set getThemeNames. th_name th = Some (JStr n))
         \<and> (\<forall>e \<in> set (th_evidence th). length_gt0 rt (ev_text e) = Inr True \<and> ev_text e \<noteq> JStr [])"
proof -
  from assms(1) obtain ts kept where
    f: "filter_throwing (theme_kept rt) ts = Inr kept"
    and m: "map_throwing (clean_theme rt) kept = Inr (themes r)"
    unfolding validate_insights_def and_then_Inr_iff by auto
  from list_all2_right_member [OF map_throwing_Inr [OF m] assms(2)] obtain t where
    t: "t \<in> set kept" "clean_theme rt t = Inr th"
    by blast
  from t(1) filter_throwing_Inr [OF f] have "theme_kept rt t = Inr True" by simp
  from theme_kept_object [OF this] obtain kvs n where
    o: "t = JObj kvs" "map_of kvs ''name'' = Some (JStr n)" "n \<in> set getThemeNames"
    by blast
  from clean_theme_fields [OF t(2)] o have "th_name th = Some (JStr n)"
    by (simp add: th_name_def map_of_filter_other_key)
  moreover from clean_theme_fields [OF t(2)]
  have "\<forall>e \<in> set (th_evidence th). length_gt0 rt (ev_text e) = Inr True \<and> ev_text e \<noteq> JStr []"
    by (auto simp: length_gt0_empty_string)
  ultimately show ?thesis using o(3) by blast
qed

lemma returned_themes_are_cleaned:
  assumes "extractInsights env rt create transcript notes title model = Inr r"
    and "th \<in> set (themes r)"
  shows "(\<exists>n \<in> set getThemeNames. th_name th = Some (JStr n))
         \<and> (\<forall>e \<in> set (th_evidence th). length_gt0 rt (ev_text e) = Inr True \<and> ev_text e \<noteq> JStr [])"
proof -
  from extractInsights_Inr [OF assms(1)] assms(2) obtain parsed where
    "validate_insights rt parsed = Inr r"
    by (auto simp: minimal_insights_def)
  then show ?thesis using assms(2) by (rule validated_themes_are_cleaned)
qed

section \<open>Properties of the embedding generator\<close>

lemma embed_loop_3:
  "embed_loop create req 3 =
     (case embed_attempt create req 3 of
        Inr v \<Rightarrow> \<lparr> ge_requests = [req], ge_delays = [], ge_outcome = Inr v \<rparr>
      | Inl err \<Rightarrow> \<lparr> ge_requests = [req], ge_delays = [], ge_outcome = Inl err \<rparr>)"
  by (subst embed_loop.simps) (simp add: maxRetries_def split: sum.splits)

lemma embed_loop_2:
  "embed_loop create req 2 =
     (case embed_attempt create req 2 of
        Inr v \<Rightarrow> \<lparr> ge_requests = [req], ge_delays = [], ge_outcome = Inr v \<rparr>
      | Inl err \<Rightarrow>
          if isRetryable err
          then \<lparr> ge_requests = req # ge_requests (embed_loop create req 3),
                 ge_delays = 4000 # ge_delays (embed_loop create req 3),
                 ge_outcome = ge_outcome (embed_loop create req 3) \<rparr>
          else \<lparr> ge_requests = [req], ge_delays = [], ge_outcome = Inl err \<rparr>)"
  by (subst embed_loop.simps) (simp add: maxRetries_def Let_def numeral_3_eq_3 numeral_2_eq_2 split: sum.splits)

lemma embed_loop_1:
  "embed_loop create req (Suc 0) =
     (case embed_attempt create req (Suc 0) of
        Inr v \<Rightarrow> \<lparr> ge_requests = [req], ge_delays = [], ge_outcome = Inr v \<rparr>
      | Inl err \<Rightarrow>
          if isRetryable err
          then \<lparr> ge_requests = req # ge_requests (embed_loop create req 2),
                 ge_delays = 2000 # ge_delays (embed_loop create req 2),
                 ge_outcome = ge_outcome (embed_loop create req 2) \<rparr>
          else \<lparr> ge_requests = [req], ge_delays = [], ge_outcome = Inl err \<rparr>)"
  by (subst embed_loop.simps) (simp add: maxRetries_def Let_def numeral_2_eq_2 split: sum.splits)

lemma embed_loop_requests:
  "ge_requests (embed_loop create req (Suc 0)) \<in> {[req], [req, req], [req, req, req]}"
  by (simp add: embed_loop_1 embed_loop_2 embed_loop_3 split: sum.splits)

lemma isRetryable_connection: "isRetryable (JsError ''Connection error.'')"
  by (simp add: isRetryable_def)

lemma sort_key_indexed_permutation:
  assumes "mset data = mset (map (\<lambda>k. \<lparr> ei_index = k, ei_embedding = f k \<rparr>) [0..<n])"
  shows "sort_key ei_index data = map (\<lambda>k. \<lparr> ei_index = k, ei_embedding = f k \<rparr>) [0..<n]"
proof -
  let ?g = "\<lambda>k. \<lparr> ei_index = k, ei_embedding = f k \<rparr>"
  let ?s = "sort_key ei_index data"
  have m: "mset ?s = mset (map ?g [0..<n])"
    using assms by simp
  then have "set ?s = set (map ?g [0..<n])"
    by (rule mset_eq_setD)
  then have items: "\<forall>x \<in> set ?s. ?g (ei_index x) = x"
    by auto
  have "mset (map ei_index ?s) = mset (map ei_index (map ?g [0..<n]))"
    using m by (metis mset_map)
  then have k: "mset (map ei_index ?s) = mset [0..<n]"
    by (simp add: comp_def)
  have "sorted (map ei_index ?s)"
    by (rule sorted_sort_key)
  moreover have "distinct (map ei_index ?s)"
    using k by (metis distinct_upt mset_eq_imp_distinct_iff)
  moreover have "set (map ei_index ?s) = set [0..<n]"
    using k by (rule mset_eq_setD)
  ultimately have "map ei_index ?s = [0..<n]"
    by (intro sorted_distinct_set_unique) simp_all
  then have "map ?g (map ei_index ?s) = map ?g [0..<n]"
    by simp
  moreover have "map ?g (map ei_index ?s) = ?s"
  proof -
    have "map (?g \<circ> ei_index) ?s = ?s"
      by (rule map_idI) (use items in auto)
    then show ?thesis by simp
  qed
  ultimately show ?thesis by simp
qed

lemma embed_batches_in_order:
  assumes b: "0 < b"
    and resp: "\<And>j. j * b < length texts \<Longrightarrow>
      \<exists>data. create (j * b)
                \<lparr> er_model = model,
                  er_input = InputBatch (map (take 8000) (take b (drop (j * b) texts))) \<rparr> = Inr data
           \<and> mset data = mset (map (\<lambda>k. \<lparr> ei_index = k, ei_embedding = vec (j * b + k) \<rparr>)
                                  [0..<length (take b (drop (j * b) texts))])"
  shows "embed_batches create model b texts (j * b) results
           = Some (Inr (results @ map vec [j * b..<length texts]))"
proof (induction "length texts - j * b" arbitrary: j results rule: less_induct)
  case less
  show ?case
  proof (cases "j * b < length texts")
    case False
    then show ?thesis
      by (subst embed_batches.simps) simp
  next
    case True
    let ?i = "j * b"
    let ?len = "length (take b (drop ?i texts))"
    from resp [OF True] obtain data where
      d: "create ?i \<lparr> er_model = model,
                  er_input = InputBatch (map (take 8000) (take b (drop ?i texts))) \<rparr> = Inr data"
      and p: "mset data = mset (map (\<lambda>k. \<lparr> ei_index = k, ei_embedding = vec (?i + k) \<rparr>) [0..<?len])"
      by blast
    have s: "map ei_embedding (sort_key ei_index data) = map (\<lambda>k. vec (?i + k)) [0..<?len]"
      using sort_key_indexed_permutation [OF p] by (simp add: comp_def)
    have "[?i..<?i + ?len] = map (\<lambda>k. k + ?i) [0..<?len]"
      by (simp only: map_add_upt add.commute)
    then have "map vec [?i..<?i + ?len] = map (\<lambda>k. vec (?i + k)) [0..<?len]"
      by (simp only: map_map comp_def add.commute)
    then have "map (\<lambda>k. vec (?i + k)) [0..<?len] = map vec [?i..<?i + ?len]"
      by simp
    with s have s': "map ei_embedding (sort_key ei_index data) = map vec [?i..<?i + ?len]"
      by simp
    have "length texts - Suc j * b < length texts - ?i"
      using True b by (simp add: diff_less_mono2)
    then have ih: "embed_batches create model b texts (Suc j * b) (results @ map vec [?i..<?i + ?len])
        = Some (Inr ((results @ map vec [?i..<?i + ?len]) @ map vec [Suc j * b..<length texts]))"
      by (rule less)
    have cat: "[?i..<?i + ?len] @ [Suc j * b..<length texts] = [?i..<length texts]"
    proof (cases "?i + b \<le> length texts")
      case True
      then have "?len = b" by simp
      then show ?thesis using True
        by (simp add: add.commute) (metis le_add1 upt_add_eq_append le_Suc_ex add.commute)
    next
      case False
      then have "?len = length texts - ?i" by simp
      then show ?thesis using False \<open>?i < length texts\<close> by (simp add: add.commute)
    qed
    have "embed_batches create model b texts ?i results
        = embed_batches create model b texts (?i + b) (results @ map ei_embedding (sort_key ei_index data))"
      using True d by (subst embed_batches.simps) (simp add: Let_def)
    also have "\<dots> = Some (Inr ((results @ map vec [?i..<?i + ?len]) @ map vec [Suc j * b..<length texts]))"
      using ih s' by (simp add: add.commute)
    also have "\<dots> = Some (Inr (results @ map vec [?i..<length texts]))"
      using cat by (metis append.assoc map_append)
    finally show ?thesis .
  qed
qed

text \<open>
  The retry loop of \<open>generateEmbedding\<close>, for the errors that \<open>isRetryable\<close> accepts (those
  whose message contains \<open>Connection\<close>, \<open>timeout\<close>, \<open>ECONNRESET\<close> or \<open>rate limit\<close>): with the
  client available such a call is retried at most twice, after 2000 and then 4000
  milliseconds. If the service fails so twice and answers the third call, the vector of
  the answer is returned. If the attempts made all fail, the last one with an error that
  \<open>isRetryable\<close> refuses or as the third attempt, that error is thrown to the caller. No
  more than three requests are ever sent.
\<close>

theorem generateEmbedding_retries_then_propagates:
  assumes env: "getOpenAI env = Inr env'"
    and req: "req = \<lparr> er_model = with_default DEFAULT_MODEL model,
                      er_input = InputText (take 8000 text) \<rparr>"
    and run: "run = generateEmbedding env create text model"
  shows
    "(\<forall>e1 e2 item items.
        create 1 req = Inl e1 \<and> isRetryable e1 \<and> create 2 req = Inl e2 \<and> isRetryable e2
        \<and> create 3 req = Inr (item # items)
        \<longrightarrow> ge_outcome run = Inr (ei_embedding item) \<and> ge_delays run = [2000, 4000]
            \<and> ge_requests run = [req, req, req])
     \<and> (\<forall>k e. 1 \<le> k \<and> k \<le> 3
            \<and> (\<forall>j. 1 \<le> j \<and> j < k \<longrightarrow> (\<exists>e'. create j req = Inl e' \<and> isRetryable e'))
            \<and> create k req = Inl e \<and> (\<not> isRetryable e \<or> k = 3)
          \<longrightarrow> ge_outcome run = Inl e \<and> length (ge_requests run) = k
              \<and> ge_delays run = take (k - 1) [2000, 4000])
     \<and> length (ge_requests run) \<le> 3"
proof -
  have r: "run = embed_loop create req (Suc 0)"
    using env req run by (simp add: generateEmbedding_def)
  have a: "\<And>k e. create k req = Inl e \<Longrightarrow> embed_attempt create req k = Inl e"
    by (simp add: embed_attempt_def)
  show ?thesis
  proof (intro conjI allI impI)
    fix e1 e2 item items
    assume h: "create 1 req = Inl e1 \<and> isRetryable e1 \<and> create 2 req = Inl e2 \<and> isRetryable e2
        \<and> create 3 req = Inr (item # items)"
    then have "embed_attempt create req (Suc 0) = Inl e1" "embed_attempt create req 2 = Inl e2"
      "embed_attempt create req 3 = Inr (ei_embedding item)"
      by (simp_all add: embed_attempt_def)
    with h show "ge_outcome run = Inr (ei_embedding item)" "ge_delays run = [2000, 4000]"
      "ge_requests run = [req, req, req]"
      by (simp_all add: r embed_loop_1 embed_loop_2 embed_loop_3)
  next
    fix k e
    assume h: "1 \<le> k \<and> k \<le> 3
            \<and> (\<forall>j. 1 \<le> j \<and> j < k \<longrightarrow> (\<exists>e'. create j req = Inl e' \<and> isRetryable e'))
            \<and> create k req = Inl e \<and> (\<not> isRetryable e \<or> k = 3)"
    then consider "k = 1" | "k = 2" | "k = 3" by linarith
    then have "ge_outcome run = Inl e \<and> length (ge_requests run) = k
        \<and> ge_delays run = take (k - 1) [2000, 4000]"
    proof cases
      case 1
      with h have "embed_attempt create req (Suc 0) = Inl e" "\<not> isRetryable e"
        by (simp_all add: a)
      with 1 show ?thesis by (simp add: r embed_loop_1)
    next
      case 2
      with h obtain e' where "create (Suc 0) req = Inl e'" "isRetryable e'" by fastforce
      moreover from 2 h have "embed_attempt create req 2 = Inl e" "\<not> isRetryable e"
        by (simp_all add: a)
      ultimately show ?thesis using 2 by (simp add: r embed_loop_1 embed_loop_2 a)
    next
      case 3
      with h obtain e' where 1: "create (Suc 0) req = Inl e'" "isRetryable e'" by fastforce
      from 3 h have "\<exists>e'. create 2 req = Inl e' \<and> isRetryable e'" by simp
      then obtain e'' where 2: "create 2 req = Inl e''" "isRetryable e''" by blast
      from 3 h have "embed_attempt create req 3 = Inl e" by (simp add: a)
      with 1 2 3 show ?thesis by (simp add: r embed_loop_1 embed_loop_2 embed_loop_3 a)
    qed
    then show "ge_outcome run = Inl e" "length (ge_requests run) = k"
      "ge_delays run = take (k - 1) [2000, 4000]" by simp_all
  next
    show "length (ge_requests run) \<le> 3"
      using embed_loop_requests [of create req] by (auto simp: r)
  qed
qed

theorem generateEmbedding_retries_then_propagates_witness:
  "getOpenAI configured_env = Inr (configured_env \<lparr> openaiClient := True \<rparr>)
   \<and> flaky_embeddings 1 \<lparr> er_model = ''text-embedding-3-small'', er_input = InputText ''hello'' \<rparr>
       = Inl (JsError ''Connection error.'')
   \<and> flaky_embeddings 2 \<lparr> er_model = ''text-embedding-3-small'', er_input = InputText ''hello'' \<rparr>
       = Inl (JsError ''Connection error.'')
   \<and> isRetryable (JsError ''Connection error.'')
   \<and> flaky_embeddings 3 \<lparr> er_model = ''text-embedding-3-small'', er_input = InputText ''hello'' \<rparr>
       = Inr [\<lparr> ei_index = 0, ei_embedding = [1, 0] \<rparr>]
   \<and> ge_outcome (generateEmbedding configured_env flaky_embeddings ''hello'' None) = Inr [1, 0]
   \<and> ge_delays (generateEmbedding configured_env flaky_embeddings ''hello'' None) = [2000, 4000]"
proof -
  let ?req = "\<lparr> er_model = ''text-embedding-3-small'', er_input = InputText ''hello'' \<rparr>"
  have env: "getOpenAI configured_env = Inr (configured_env \<lparr> openaiClient := True \<rparr>)"
    by (simp add: getOpenAI_def configured_env_def)
  have req: "?req = \<lparr> er_model = with_default DEFAULT_MODEL None,
                      er_input = InputText (take 8000 ''hello'') \<rparr>"
    by (simp add: with_default_def DEFAULT_MODEL_def)
  have f: "flaky_embeddings 1 ?req = Inl (JsError ''Connection error.'')"
    "flaky_embeddings 2 ?req = Inl (JsError ''Connection error.'')"
    "flaky_embeddings 3 ?req = Inr [\<lparr> ei_index = 0, ei_embedding = [1, 0] \<rparr>]"
    by (simp_all add: flaky_embeddings_def)
  from generateEmbedding_retries_then_propagates [OF env req refl, of flaky_embeddings]
  have "ge_outcome (generateEmbedding configured_env flaky_embeddings ''hello'' None) = Inr [1, 0]
     \<and> ge_delays (generateEmbedding configured_env flaky_embeddings ''hello'' None) = [2000, 4000]"
    using f isRetryable_connection by fastforce
  with env f isRetryable_connection show ?thesis by simp
qed

text \<open>
  Claim C5 does not hold of the code. Whether an error is transient is decided by looking
  for \<open>Connection\<close>, \<open>timeout\<close>, \<open>ECONNRESET\<close> or \<open>rate limit\<close> in its message. The timeout error
  of the client library says \<open>Request timed out.\<close> and its rate limit error says
  \<open>Rate limit\<close> with a capital letter: neither message contains one of the four words. A
  call that fails so is not retried: one request is sent and the error is thrown at once,
  although the second call would have been answered.
\<close>

theorem timeout_error_is_not_retried:
  "generateEmbedding configured_env (failing_once ''Request timed out.'') ''hello'' None
     = \<lparr> ge_requests = [\<lparr> er_model = ''text-embedding-3-small'', er_input = InputText ''hello'' \<rparr>],
         ge_delays = [],
         ge_outcome = Inl (JsError ''Request timed out.'') \<rparr>
   \<and> generateEmbedding configured_env (failing_once ''429 Rate limit reached for requests'')
       ''hello'' None
     = \<lparr> ge_requests = [\<lparr> er_model = ''text-embedding-3-small'', er_input = InputText ''hello'' \<rparr>],
         ge_delays = [],
         ge_outcome = Inl (JsError ''429 Rate limit reached for requests'') \<rparr>
   \<and> failing_once ''Request timed out.'' 2
       \<lparr> er_model = ''text-embedding-3-small'', er_input = InputText ''hello'' \<rparr>
     = Inr [\<lparr> ei_index = 0, ei_embedding = [1, 0] \<rparr>]"
proof -
  have t: "\<not> isRetryable (JsError ''Request timed out.'')"
    by (simp add: isRetryable_def)
  have r: "\<not> isRetryable (JsError ''429 Rate limit reached for requests'')"
    by (simp add: isRetryable_def)
  show ?thesis
    using t r
    by (simp add: generateEmbedding_def getOpenAI_def configured_env_def embed_loop_1
          embed_attempt_def failing_once_def with_default_def DEFAULT_MODEL_def)
qed



text \<open>
  Claim C6. With the client available and a batch size that is not 0: if the service
  answers the request for every batch with the items of that batch in any order, the
  item with index \<open>k\<close> of the batch at offset \<open>i\<close> carrying the vector \<open>vec (i + k)\<close> of the
  input text at position \<open>i + k\<close>, then \<open>generateEmbeddings\<close> returns the vectors in the order
  of the input texts.
\<close>

theorem generateEmbeddings_preserves_order:
  assumes env: "getOpenAI env = Inr env'"
    and b: "b = with_default 100 batchSize" "0 < b"
    and resp: "\<And>j. j * b < length texts \<Longrightarrow>
      \<exists>data. create (j * b)
                \<lparr> er_model = with_default DEFAULT_MODEL model,
                  er_input = InputBatch (map (take 8000) (take b (drop (j * b) texts))) \<rparr> = Inr data
           \<and> mset data = mset (map (\<lambda>k. \<lparr> ei_index = k, ei_embedding = vec (j * b + k) \<rparr>)
                                  [0..<length (take b (drop (j * b) texts))])"
  shows "generateEmbeddings env create texts model batchSize
           = Some (Inr (map vec [0..<length texts]))"
proof -
  have "embed_batches create (with_default DEFAULT_MODEL model) b texts (0 * b) []
          = Some (Inr ([] @ map vec [0 * b..<length texts]))"
    using b(2) resp by (rule embed_batches_in_order)
  then show ?thesis
    using env b(1) by (simp add: generateEmbeddings_def)
qed

theorem generateEmbeddings_preserves_order_witness:
  "getOpenAI configured_env = Inr (configured_env \<lparr> openaiClient := True \<rparr>)
   \<and> reversing_embeddings 0
        \<lparr> er_model = ''text-embedding-3-small'', er_input = InputBatch [''a'', ''b''] \<rparr>
       = Inr [\<lparr> ei_index = 1, ei_embedding = [1] \<rparr>, \<lparr> ei_index = 0, ei_embedding = [0] \<rparr>]
   \<and> generateEmbeddings configured_env reversing_embeddings [''a'', ''b'', ''c''] None (Some 2)
       = Some (Inr [[0], [1], [2]])"
proof -
  have env: "getOpenAI configured_env = Inr (configured_env \<lparr> openaiClient := True \<rparr>)"
    by (simp add: getOpenAI_def configured_env_def)
  have first: "reversing_embeddings 0
        \<lparr> er_model = ''text-embedding-3-small'', er_input = InputBatch [''a'', ''b''] \<rparr>
       = Inr [\<lparr> ei_index = 1, ei_embedding = [1] \<rparr>, \<lparr> ei_index = 0, ei_embedding = [0] \<rparr>]"
    by (simp add: reversing_embeddings_def numeral_2_eq_2)
  have resp: "\<exists>data. reversing_embeddings (j * 2)
                \<lparr> er_model = with_default DEFAULT_MODEL None,
                  er_input = InputBatch (map (take 8000) (take 2 (drop (j * 2) [''a'', ''b'', ''c'']))) \<rparr>
                = Inr data
           \<and> mset data = mset (map (\<lambda>k. \<lparr> ei_index = k, ei_embedding = [real (j * 2 + k)] \<rparr>)
                                  [0..<length (take 2 (drop (j * 2) [''a'', ''b'', ''c'']))])" for j
    by (simp add: reversing_embeddings_def)
  have "generateEmbeddings configured_env reversing_embeddings [''a'', ''b'', ''c''] None (Some 2)
       = Some (Inr (map (\<lambda>n. [real n]) [0..<length [''a'', ''b'', ''c'']]))"
    using env _ _ resp
    by (rule generateEmbeddings_preserves_order) (simp_all add: with_default_def)
  then have "generateEmbeddings configured_env reversing_embeddings [''a'', ''b'', ''c''] None (Some 2)
       = Some (Inr [[0], [1], [2]])"
    by (simp add: numeral_3_eq_3)
  with env first show ?thesis by simp
qed

section \<open>Properties of the indexing commands\<close>

lemma theme_chunks_state:
  "theme_chunks rt embedText docId ths st = Inr st' \<Longrightarrow>
     indexedDocs st' = indexedDocs st
     \<and> (\<exists>new. allChunks st' = allChunks st @ new \<and> length new = length ths
           \<and> (\<forall>c \<in> set new. ck_document_id c = docId \<and> ck_type c = KTheme))"
proof (induction ths arbitrary: st)
  case Nil
  then show ?case by simp
next
  case (Cons theme rest)
  then show ?case
    by (fastforce simp: theme_chunk_def split: sum.splits)
qed

lemma quote_chunks_state:
  "quote_chunks cmd rt embedText docId i qs st = Inr st' \<Longrightarrow>
     indexedDocs st' = indexedDocs st
     \<and> (\<exists>new. allChunks st' = allChunks st @ new \<and> length new = length qs
           \<and> (\<forall>c \<in> set new. ck_document_id c = docId \<and> ck_type c = KQuote))"
proof (induction qs arbitrary: st i)
  case Nil
  then show ?case by simp
next
  case (Cons quote rest)
  then show ?case
    by (fastforce simp: quote_chunk_def split: sum.splits)
qed

lemma process_document_state:
  assumes "process_document cmd rt extract embedText options dir docJson st = Inr st'"
  shows "\<exists>insights v ts qs.
           indexedDocs st' = indexedDocs st @ [(indexed_document dir docJson insights, v)]
           \<and> allChunks st' = allChunks st
                @ (if cmd = IndexCommand then [summary_chunk docJson insights v] else []) @ ts @ qs
           \<and> (\<forall>c \<in> set ts. ck_document_id c = gd_id docJson \<and> ck_type c = KTheme)
           \<and> length ts = length (themes insights)
           \<and> (\<forall>c \<in> set qs. ck_document_id c = gd_id docJson \<and> ck_type c = KQuote)
           \<and> length qs = length (key_quotes insights)"
proof -
  from assms obtain insights v st3 where
    th: "theme_chunks rt embedText (gd_id docJson) (themes insights)
           (if cmd = IndexCommand
            then st \<lparr> indexedDocs := indexedDocs st @ [(indexed_document dir docJson insights, v)],
                      allChunks := allChunks st @ [summary_chunk docJson insights v] \<rparr>
            else st \<lparr> indexedDocs := indexedDocs st @ [(indexed_document dir docJson insights, v)] \<rparr>)
         = Inr st3"
    and qu: "quote_chunks cmd rt embedText (gd_id docJson) 0 (key_quotes insights) st3 = Inr st'"
    unfolding process_document_def Let_def and_then_Inr_iff
    by (cases "cmd = IndexCommand") auto
  from theme_chunks_state [OF th] obtain ts where
    ts: "indexedDocs st3 = indexedDocs st @ [(indexed_document dir docJson insights, v)]"
      "allChunks st3 = allChunks st
          @ (if cmd = IndexCommand then [summary_chunk docJson insights v] else []) @ ts"
      "length ts = length (themes insights)"
      "\<forall>c \<in> set ts. ck_document_id c = gd_id docJson \<and> ck_type c = KTheme"
    by (cases "cmd = IndexCommand") auto
  from quote_chunks_state [OF qu] obtain qs where
    qs: "indexedDocs st' = indexedDocs st3" "allChunks st' = allChunks st3 @ qs"
      "length qs = length (key_quotes insights)"
      "\<forall>c \<in> set qs. ck_document_id c = gd_id docJson \<and> ck_type c = KQuote"
    by auto
  from ts qs show ?thesis
    by (intro exI [where x = insights] exI [where x = v] exI [where x = ts] exI [where x = qs]) simp
qed

lemma process_document_keeps_references:
  assumes "process_document cmd rt extract embedText options dir docJson st = Inr st'"
    and "\<forall>c \<in> set (allChunks st). \<exists>d \<in> set (indexedDocs st). idoc_id (fst d) = ck_document_id c"
  shows "\<forall>c \<in> set (allChunks st'). \<exists>d \<in> set (indexedDocs st'). idoc_id (fst d) = ck_document_id c"
proof -
  from process_document_state [OF assms(1)] obtain insights v ts qs where
    s: "indexedDocs st' = indexedDocs st @ [(indexed_document dir docJson insights, v)]"
      "allChunks st' = allChunks st
          @ (if cmd = IndexCommand then [summary_chunk docJson insights v] else []) @ ts @ qs"
      "\<forall>c \<in> set ts. ck_document_id c = gd_id docJson \<and> ck_type c = KTheme"
      "\<forall>c \<in> set qs. ck_document_id c = gd_id docJson \<and> ck_type c = KQuote"
    by blast
  have id: "idoc_id (indexed_document dir docJson insights) = gd_id docJson"
    by (simp add: indexed_document_def)
  show ?thesis
  proof
    fix c assume "c \<in> set (allChunks st')"
    with s(2) consider "c \<in> set (allChunks st)"
      | "cmd = IndexCommand" "c = summary_chunk docJson insights v" | "c \<in> set ts" | "c \<in> set qs"
      by (auto split: if_splits)
    then show "\<exists>d \<in> set (indexedDocs st'). idoc_id (fst d) = ck_document_id c"
    proof cases
      case 1
      with assms(2) s(1) show ?thesis by auto
    next
      case 2
      with s(1) id show ?thesis by (auto simp: summary_chunk_def)
    next
      case 3
      with s(1,3) id show ?thesis by auto
    next
      case 4
      with s(1,4) id show ?thesis by auto
    qed
  qed
qed

lemma process_dirs_keeps_references:
  "process_dirs cmd rt extract embedText options dirs st = Inr st' \<Longrightarrow>
   \<forall>c \<in> set (allChunks st). \<exists>d \<in> set (indexedDocs st). idoc_id (fst d) = ck_document_id c \<Longrightarrow>
   \<forall>c \<in> set (allChunks st'). \<exists>d \<in> set (indexedDocs st'). idoc_id (fst d) = ck_document_id c"
proof (induction dirs arbitrary: st)
  case Nil
  then show ?case by simp
next
  case (Cons dir rest)
  show ?case
  proof (cases "dd_document dir")
    case None
    with Cons show ?thesis by simp
  next
    case (Some docJson)
    with Cons.prems(1) obtain st1 where
      1: "process_document cmd rt extract embedText options dir docJson st = Inr st1"
      and 2: "process_dirs cmd rt extract embedText options rest st1 = Inr st'"
      by (auto split: sum.splits)
    from process_document_keeps_references [OF 1 Cons.prems(2)]
    show ?thesis by (rule Cons.IH [OF 2])
  qed
qed

lemma decimal_0: "decimal 0 = ''0''"
  by code_simp

lemma example_index_run:
  "indexing_run IndexCommand example_runtime example_extractor example_embedder
     \<lparr> skipExtraction = False, model_option = None \<rparr> [example_dir]
   = Inr \<lparr> indexedDocs = [(indexed_document example_dir
                              \<lparr> gd_id = ''doc-1'', gd_title = Some ''Pricing call'',
                                gd_created_at = ''2025-01-10T09:00:00Z'', gd_updated_at = None \<rparr>
                              example_insights, [1, 0])],
           allChunks =
             [summary_chunk \<lparr> gd_id = ''doc-1'', gd_title = Some ''Pricing call'',
                              gd_created_at = ''2025-01-10T09:00:00Z'', gd_updated_at = None \<rparr>
                example_insights [1, 0],
              theme_chunk example_runtime ''doc-1'' (hd (themes example_insights)) [1, 0],
              quote_chunk IndexCommand ''doc-1'' 0 (hd (key_quotes example_insights)) [1, 0]] \<rparr>"
  by (simp add: indexing_run_def process_document_def example_dir_def example_extractor_def
        example_embedder_def example_insights_def)

text \<open>
  Claim C10. In a run of either command that ends without an exception, every chunk
  handed to \<open>storeChunks\<close> carries the id of a document handed to \<open>storeDocuments\<close> by the
  same run. (The lemmas above show this after every document of the loop: a document's
  chunks are pushed after the document itself.)
\<close>

theorem chunks_reference_indexed_documents:
  assumes "indexing_run cmd rt extract embedText options docDirs = Inr st"
  shows "\<forall>c \<in> set (allChunks st). \<exists>d \<in> set (indexedDocs st). idoc_id (fst d) = ck_document_id c"
  using assms unfolding indexing_run_def
  by (rule process_dirs_keeps_references) simp

theorem chunks_reference_indexed_documents_witness:
  "stored_ids (indexing_run IndexCommand example_runtime example_extractor example_embedder
       \<lparr> skipExtraction = False, model_option = None \<rparr> [example_dir])
     = Inr ([''doc-1''],
            [(''doc-1_summary'', KSummary, ''doc-1''), (''doc-1_theme_pricing'', KTheme, ''doc-1''),
             (''doc-1_quote_0'', KQuote, ''doc-1'')])"
proof -
  note run = example_index_run
  from chunks_reference_indexed_documents [OF run]
  have "list_all (\<lambda>c. ck_document_id c = ''doc-1'')
          [summary_chunk \<lparr> gd_id = ''doc-1'', gd_title = Some ''Pricing call'',
                              gd_created_at = ''2025-01-10T09:00:00Z'', gd_updated_at = None \<rparr>
                example_insights [1, 0],
              theme_chunk example_runtime ''doc-1'' (hd (themes example_insights)) [1, 0],
              quote_chunk IndexCommand ''doc-1'' 0 (hd (key_quotes example_insights)) [1, 0]]"
    by (simp add: indexed_document_def)
  then show ?thesis
    unfolding run
    by (simp add: stored_ids_def indexed_document_def summary_chunk_def theme_chunk_def
          quote_chunk_def example_insights_def th_name_def decimal_0)
qed

text \<open>
  Claim C2 does not hold of the sync command. Its loop pushes the document and goes on to
  the theme and quote chunks; the summary chunk that the index command pushes is never
  created. For one document with extraction skipped the sync command stores one document
  and no chunk, the index command one document and its summary chunk.
\<close>

theorem sync_stores_no_summary_chunk:
  "stored_ids (indexing_run SyncCommand example_runtime example_extractor example_embedder
       \<lparr> skipExtraction = True, model_option = None \<rparr> [example_dir])
     = Inr ([''doc-1''], [])
   \<and> stored_ids (indexing_run IndexCommand example_runtime example_extractor example_embedder
       \<lparr> skipExtraction = True, model_option = None \<rparr> [example_dir])
     = Inr ([''doc-1''], [(''doc-1_summary'', KSummary, ''doc-1'')])"
  by (simp add: stored_ids_def indexing_run_def process_document_def example_dir_def
        example_embedder_def initial_insights_def indexed_document_def summary_chunk_def Let_def)

end
